theory Spec2Isabelle
  imports Main "HOL-Library.Sublist" "HOL-Library.AList"
begin

section \<open>Content resolution of the live-preview server (BrowserStaticServer.js)\<close>

subsection \<open>Values\<close>

text \<open>
  A response's \<open>contents\<close> is a JavaScript string (overlay text, the body of a live
  document, the text of an open editor document, a rendered page), the byte array that
  \<open>fs.readFile\<close> delivers, or \<open>null\<close>. \<open>null\<close> is \<open>None\<close>; the empty string is
  \<open>Some (Text [])\<close>. A response without a \<open>headers\<close> key, or whose \<open>headers\<close> is
  \<open>undefined\<close>, has \<open>headers = None\<close>.
\<close>

datatype body = Text string | Bytes "nat list"

record response =
  path :: string
  contents :: "body option"
  headers :: "(string \<times> string) list option"

text \<open>
  How a promise ends: resolved; rejected, with the string or the message of the \<open>Error\<close>
  handed to \<open>reject\<close>, or with an exception that a collaborator has thrown inside the
  executor (the model does not name its value); or never settled.
\<close>

datatype rejection = Reason string | Thrown

datatype 'a promise = Resolved 'a | Rejected rejection | Pending

text \<open>
  A parsed \<open>URL\<close> object: \<open>searchParams\<close> is the ordered list of query pairs, on which
  \<open>get\<close> returns the first value of a name and \<open>delete\<close> removes every pair of a name.
\<close>

record jsurl =
  location :: string
  searchParams :: "(string \<times> string) list"
  fragment :: string

definition searchParams_get :: "jsurl \<Rightarrow> string \<Rightarrow> string option" where
  "searchParams_get u name = map_of (searchParams u) name"

definition searchParams_delete :: "jsurl \<Rightarrow> string \<Rightarrow> jsurl" where
  "searchParams_delete u name =
     u\<lparr>searchParams := filter (\<lambda>kv. fst kv \<noteq> name) (searchParams u)\<rparr>"

text \<open>JavaScript truthiness of a string-or-absent value: absent and \<open>""\<close> are falsy.\<close>

fun truthy :: "string option \<Rightarrow> bool" where
  "truthy None = False"
| "truthy (Some s) = (s \<noteq> [])"

subsection \<open>Collaborators that are not part of the sources\<close>

text \<open>
  The resolver calls into the browser and into modules of the editor whose code is not
  among the sources. They are parameters of the model; every theorem below holds for all
  of them.
  \<^item> \<open>new_URL\<close>: the \<open>URL\<close> constructor (\<open>None\<close> when it throws \<open>TypeError\<close>);
    \<open>URL_href\<close>: the serialisation \<open>url.href\<close>.
  \<^item> \<open>getRemoteScript\<close>: \<open>LiveDevProtocol.getRemoteScript()\<close>, the instrumentation marker.
  \<^item> \<open>isMarkdownFile\<close>: \<open>utils.isMarkdownFile\<close>.
  \<^item> \<open>renderMarkdownPage\<close>: what \<open>_getMarkdown\<close> computes from the document text
    (leading zero-width character removed, \<open>marked.parse\<close>, \<open>Mustache.render\<close> of
    \<open>markdown.html\<close>); \<open>None\<close> when one of them throws.
  \<^item> \<open>renderRedirectionPage\<close>: \<open>Mustache.render(redirectionHTMLTemplate, {redirectURL})\<close>.
  \<^item> \<open>documentKey\<close>: \<open>BaseServer.prototype._documentKey\<close>.
  \<^item> \<open>fullPath\<close>: \<open>FileSystem.getFileForPath(p).fullPath\<close>.
\<close>

record platform =
  new_URL :: "string \<Rightarrow> jsurl option"
  URL_href :: "jsurl \<Rightarrow> string"
  getRemoteScript :: string
  isMarkdownFile :: "string \<Rightarrow> bool"
  renderMarkdownPage :: "string \<Rightarrow> string option"
  renderRedirectionPage :: "string \<Rightarrow> string"
  documentKey :: "string \<Rightarrow> string"
  fullPath :: "string \<Rightarrow> string"

subsection \<open>State of the editor process\<close>

text \<open>
  A live document of \<open>_liveDocuments\<close>; \<open>getResponseData\<close> is \<open>None\<close> when the object has
  no such method (the resolver tests \<open>liveDocument.getResponseData\<close>), otherwise the
  \<open>body\<close> of what it returns.
\<close>

datatype liveDocument = LiveDocument (getResponseData: "string option")

record StaticServer =
  baseUrl :: string
  liveDocuments :: "string \<rightharpoonup> liveDocument"
  virtualServingDocuments :: "string \<rightharpoonup> string"

text \<open>
  A tab of \<open>livePreviewTabs\<close>: \<open>lastSeen\<close> in milliseconds, \<open>navigationTab\<close> true
  for a record written by \<open>TAB_LOADER_ONLINE\<close> and absent (falsy) otherwise. The
  \<open>Map\<close> keeps insertion order, so it is an association list with distinct keys.
\<close>

text \<open>
  What \<open>DocumentManager.getDocumentForPath\<close> returns, a jQuery deferred: it fails with
  an error, or it is done with a document. \<open>DocumentDone already text\<close>: \<open>already\<close>
  tells whether the deferred is resolved by the time \<open>.done\<close> is attached, so that the
  callback runs at once inside the promise's executor; \<open>text\<close> is what \<open>doc.getText()\<close>
  returns, \<open>None\<close> when it throws.
\<close>

datatype documentPromise = DocumentFails string | DocumentDone bool "string option"

record tabInfo =
  lastSeen :: int
  URL :: "string option"
  navigationTab :: bool

text \<open>
  \<^item> \<open>staticServerInstance\<close>: \<open>_staticServerInstance\<close> (\<open>None\<close> when undefined).
  \<^item> \<open>isWithinProject\<close>: \<open>ProjectManager.isWithinProject\<close> for the current project root.
  \<^item> \<open>currentFile\<close>: the \<open>fullPath\<close> of the current document's file, else of the
    selected item; \<open>None\<close> when there is neither.
  \<^item> \<open>getDocumentForPath\<close>: how \<open>DocumentManager.getDocumentForPath\<close> ends for a path.
  \<^item> \<open>getOpenDocumentForPath\<close>: the text of the document open for a path, if any.
  \<^item> \<open>readFile\<close>: the bytes \<open>fs.readFile\<close> delivers (\<open>None\<close> on an error).
  \<^item> \<open>livePreviewTabs\<close>, \<open>currentPopoutURL\<close>: the module's variables of these names.
\<close>

record editor =
  staticServerInstance :: "StaticServer option"
  isWithinProject :: "string \<Rightarrow> bool"
  currentFile :: "string option"
  getDocumentForPath :: "string \<Rightarrow> documentPromise"
  getOpenDocumentForPath :: "string \<rightharpoonup> string"
  readFile :: "string \<rightharpoonup> nat list"
  livePreviewTabs :: "(string \<times> tabInfo) list"
  currentPopoutURL :: "string option"

subsection \<open>The resolver\<close>

definition PHCODE_LIVE_PREVIEW_QUERY_PARAM :: string where
  "PHCODE_LIVE_PREVIEW_QUERY_PARAM = ''phcodeLivePreview''"

text \<open>
  \<open>_getMarkdown\<close>. \<open>.fail\<close> rejects with an \<open>Error\<close>. The \<open>.done\<close> callback reads
  the text, renders it and resolves; when \<open>doc.getText\<close>, \<open>marked.parse\<close> or
  \<open>Mustache.render\<close> throws in it, the exception rejects the promise if the callback runs
  inside the executor (the deferred was resolved already), and otherwise leaves the
  promise for ever unsettled.
  The first component of every result below lists the paths handed to \<open>fs.readFile\<close>.
\<close>

definition getMarkdown :: "platform \<Rightarrow> editor \<Rightarrow> string \<Rightarrow> string list \<times> response promise" where
  "getMarkdown pf ed fullPath' =
     (case getDocumentForPath ed fullPath' of
        DocumentFails err \<Rightarrow>
          ([], Rejected (Reason (''Markdown rendering failed for '' @ fullPath' @ '': '' @ err)))
      | DocumentDone already text' \<Rightarrow>
          (case Option.bind text' (renderMarkdownPage pf) of
             Some html \<Rightarrow>
               ([], Resolved \<lparr>path = fullPath', contents = Some (Text html),
                              headers = Some [(''Content-Type'', ''text/html'')]\<rparr>)
           | None \<Rightarrow> ([], if already then Rejected Thrown else Pending)))"

text \<open>
  \<open>_getRedirectionPage\<close>. Its one caller passes the \<open>URL\<close> object it has just parsed;
  \<open>new URL\<close> of a \<open>URL\<close> object copies it.
\<close>

definition getRedirectionPage :: "platform \<Rightarrow> jsurl \<Rightarrow> string" where
  "getRedirectionPage pf redirectURL =
     renderRedirectionPage pf
       (URL_href pf (searchParams_delete redirectURL PHCODE_LIVE_PREVIEW_QUERY_PARAM))"

definition htmlFamily :: "string \<Rightarrow> bool" where
  "htmlFamily p \<longleftrightarrow>
     suffix ''.htm'' p \<or> suffix ''.html'' p \<or> suffix ''.xhtml'' p \<or> suffix ''.php'' p"

definition htmlHeaders :: "string \<Rightarrow> (string \<times> string) list option" where
  "htmlHeaders p =
     (if htmlFamily p then Some [(''Content-Type'', ''text/html;charset=UTF-8'')] else None)"

text \<open>\<open>StaticServer.prototype._getInstrumentedContent\<close>, \<open>this\<close> being the server.\<close>

definition getInstrumentedContent ::
  "platform \<Rightarrow> editor \<Rightarrow> StaticServer \<Rightarrow> string \<Rightarrow> string \<Rightarrow> string list \<times> response promise" where
  "getInstrumentedContent pf ed this requestedPath url =
     (let path' = documentKey pf requestedPath;
          liveDoc = liveDocuments this path';
          virtualDocument = virtualServingDocuments this path'
      in if \<not> isWithinProject ed requestedPath
         then ([], Resolved \<lparr>path = path', contents = None, headers = None\<rparr>)
         else
           (case new_URL pf url of
              None \<Rightarrow> ([], Rejected Thrown)
            | Some u \<Rightarrow>
                let isLivePreviewPopoutPage =
                      truthy (searchParams_get u PHCODE_LIVE_PREVIEW_QUERY_PARAM)
                in if truthy virtualDocument
                   then ([], Resolved \<lparr>path = path',
                                       contents = map_option Text virtualDocument,
                                       headers = htmlHeaders path'\<rparr>)
                   else
                     (case liveDoc of
                        Some (LiveDocument (Some body')) \<Rightarrow>
                          ([], Resolved \<lparr>path = path',
                             contents = Some (Text
                               (if isLivePreviewPopoutPage \<and> \<not> sublist (getRemoteScript pf) body'
                                then getRedirectionPage pf u else body')),
                             headers = htmlHeaders path'\<rparr>)
                      | _ \<Rightarrow>
                          (case getOpenDocumentForPath ed (fullPath pf requestedPath) of
                             Some text' \<Rightarrow>
                               ([], Resolved \<lparr>path = path', contents = Some (Text text'),
                                               headers = htmlHeaders path'\<rparr>)
                           | None \<Rightarrow>
                               ([requestedPath],
                                Resolved \<lparr>path = path',
                                          contents = map_option Bytes (readFile ed requestedPath),
                                          headers = None\<rparr>)))))"

text \<open>\<open>getContent\<close>, the entry point of every \<open>GET_CONTENT\<close> request.\<close>

definition getContent ::
  "platform \<Rightarrow> editor \<Rightarrow> string \<Rightarrow> string \<Rightarrow> string list \<times> response promise" where
  "getContent pf ed path' url =
     (case staticServerInstance ed of
        None \<Rightarrow> ([], Rejected (Reason ''Static serve not started!''))
      | Some srv \<Rightarrow>
          if \<not> prefix (baseUrl srv) url
          then ([], Rejected (Reason
                 (''Not serving content as url belongs to another phcode instance: '' @ url)))
          else if isMarkdownFile pf path' \<and> currentFile ed = Some path'
          then getMarkdown pf ed path'
          else getInstrumentedContent pf ed srv path' url)"

subsection \<open>The tab registry\<close>

text \<open>
  \<open>livePreviewTabs.set\<close>: a new key is appended, a known key keeps its place
  (\<open>AList.update\<close>). \<open>TAB_ONLINE\<close> writes a record without \<open>navigationTab\<close>,
  \<open>TAB_LOADER_ONLINE\<close> one with \<open>navigationTab: true\<close>; \<open>now\<close> is \<open>new Date()\<close>.
\<close>

definition tabOnline ::
  "int \<Rightarrow> string \<Rightarrow> string option \<Rightarrow> (string \<times> tabInfo) list \<Rightarrow> (string \<times> tabInfo) list" where
  "tabOnline now clientID url tabs =
     AList.update clientID \<lparr>lastSeen = now, URL = url, navigationTab = False\<rparr> tabs"

definition tabLoaderOnline ::
  "int \<Rightarrow> string \<Rightarrow> string option \<Rightarrow> (string \<times> tabInfo) list \<Rightarrow> (string \<times> tabInfo) list" where
  "tabLoaderOnline now pageLoaderID' url tabs =
     AList.update pageLoaderID' \<lparr>lastSeen = now, URL = url, navigationTab = True\<rparr> tabs"



definition hasActiveLivePreviews :: "(string \<times> tabInfo) list \<Rightarrow> bool" where
  "hasActiveLivePreviews tabs \<longleftrightarrow> length tabs > 0"






subsection \<open>Messages and handlers of the editor's channels\<close>

text \<open>
  An origin as the browser reports it in \<open>event.origin\<close>: the string \<open>null\<close> for an
  opaque origin, else scheme, host and optional port.
\<close>

datatype origin = OpaqueOrigin | TupleOrigin string string "string option"

fun origin_string :: "origin \<Rightarrow> string" where
  "origin_string OpaqueOrigin = ''null''"
| "origin_string (TupleOrigin scheme host None) = scheme @ ''://'' @ host"
| "origin_string (TupleOrigin scheme host (Some port)) = scheme @ ''://'' @ host @ '':'' @ port"

datatype 'a MessageEvent = MessageEvent (origin: origin) (data: 'a)

text \<open>
  What a preview surface posts: \<open>{eventName, message}\<close>, by event name, with the fields
  of \<open>message\<close> that the handlers read.
\<close>

datatype eventData =
    GET_PHOENIX_INSTANCE_ID
  | GET_CONTENT string string string
  | TAB_ONLINE string "string option"
  | REPORT_ERROR string
  | OtherEvent string

text \<open>A message of the relay channel: \<open>{pageLoaderID, data}\<close> (\<open>payload\<close> is its \<open>data\<close>).\<close>

record envelope =
  pageLoaderID :: "string option"
  payload :: eventData

datatype outbound = PHOENIX_INSTANCE_ID | REQUEST_RESPONSE string response

datatype effect =
    SendToLivePreviewServerTabs "string option" outbound
  | FsReadFile string
  | ConsoleError rejection
  | ReportError string
  | Trigger string eventData

text \<open>
  The \<open>onmessage\<close> handler that \<open>_initLivePreviewChannel\<close> installs on the relay channel.
  It reads \<open>event.data\<close> only. A resolved \<open>getContent\<close> is answered with one
  \<open>REQUEST_RESPONSE\<close> carrying the request's ID; a rejected one goes to
  \<open>console.error\<close>; while the promise is unsettled nothing happens.
\<close>

definition livePreviewChannel_onmessage ::
  "platform \<Rightarrow> int \<Rightarrow> editor \<Rightarrow> envelope MessageEvent \<Rightarrow> editor \<times> effect list" where
  "livePreviewChannel_onmessage pf now ed event =
     (let pid = pageLoaderID (data event) in
      case payload (data event) of
        GET_PHOENIX_INSTANCE_ID \<Rightarrow> (ed, [SendToLivePreviewServerTabs pid PHOENIX_INSTANCE_ID])
      | GET_CONTENT path' url requestID \<Rightarrow>
          (case getContent pf ed path' url of
             (reads, Resolved r) \<Rightarrow>
               (ed, map FsReadFile reads @
                    [SendToLivePreviewServerTabs pid (REQUEST_RESPONSE requestID r)])
           | (reads, Rejected e) \<Rightarrow> (ed, map FsReadFile reads @ [ConsoleError e])
           | (reads, Pending) \<Rightarrow> (ed, map FsReadFile reads))
      | TAB_ONLINE clientID url \<Rightarrow>
          (ed\<lparr>livePreviewTabs := tabOnline now clientID url (livePreviewTabs ed)\<rparr>, [])
      | REPORT_ERROR m \<Rightarrow> (ed, [ReportError m])
      | OtherEvent eventName \<Rightarrow> (ed, [Trigger eventName (payload (data event))]))"

text \<open>
  Messages of the navigation channel, by \<open>type\<close>, with the fields the handlers read:
  \<open>GET_INITIAL_URL pageLoaderID\<close>, \<open>TAB_LOADER_ONLINE pageLoaderID URL\<close>,
  \<open>INITIAL_URL_NAVIGATE URL pageLoaderID\<close>, \<open>REDIRECT_PAGE URL force\<close>,
  \<open>UPDATE_TITLE_ICON title faviconBase64\<close>, \<open>PROJECT_SWITCH projectRoot\<close>. A field
  that may be \<open>undefined\<close> is an option; \<open>force\<close> is its truthiness; a project root is
  the property key it is used as.
\<close>

datatype navMessage =
    GET_INITIAL_URL string
  | TAB_LOADER_ONLINE string "string option"
  | INITIAL_URL_NAVIGATE "string option" string
  | REDIRECT_PAGE "string option" bool
  | UPDATE_TITLE_ICON "string option" "string option"
  | PROJECT_SWITCH string
  | UnknownType string

text \<open>
  The \<open>onmessage\<close> handler that \<open>_initNavigatorChannel\<close> installs in the editor, with
  \<open>_sendInitialURL\<close>; it returns the messages it posts on the navigation channel.
\<close>

definition editor_navigatorChannel_onmessage ::
  "int \<Rightarrow> editor \<Rightarrow> navMessage MessageEvent \<Rightarrow> editor \<times> navMessage list" where
  "editor_navigatorChannel_onmessage now ed event =
     (case data event of
        GET_INITIAL_URL pid \<Rightarrow>
          (if \<not> truthy (currentPopoutURL ed) then (ed, [])
           else (ed, [INITIAL_URL_NAVIGATE (currentPopoutURL ed) pid]))
      | TAB_LOADER_ONLINE pid url \<Rightarrow>
          (ed\<lparr>livePreviewTabs := tabLoaderOnline now pid url (livePreviewTabs ed)\<rparr>, [])
      | _ \<Rightarrow> (ed, []))"

definition redirectAllTabs :: "string option \<Rightarrow> bool \<Rightarrow> editor \<Rightarrow> editor \<times> navMessage list" where
  "redirectAllTabs newURL force ed = (ed\<lparr>currentPopoutURL := newURL\<rparr>, [REDIRECT_PAGE newURL force])"

section \<open>The page loader (live-preview-loader.html)\<close>

subsection \<open>The origin allowlist and the window listener\<close>

definition TRUSTED_ORIGINS :: "string list" where
  "TRUSTED_ORIGINS =
     [''http://localhost:8000'', ''http://localhost:8001'', ''http://localhost:5000'',
      ''http://127.0.0.1:8000'', ''http://127.0.0.1:8001'', ''http://127.0.0.1:5000'',
      ''https://phcode.live'', ''https://phcode.dev'', ''https://dev.phcode.dev'',
      ''https://staging.phcode.dev'', ''https://create.phcode.dev'',
      ''https://phcode-live.ts.r.appspot.com'', ''https://csinschools.io'']"

text \<open>
  \<open>TRUSTED_ORIGINS\<close> is an object literal, so \<open>TRUSTED_ORIGINS[k]\<close> also finds the
  properties that every object inherits from \<open>Object.prototype\<close>; all of them are truthy.
\<close>

definition Object_prototype_properties :: "string list" where
  "Object_prototype_properties =
     [''constructor'', ''__proto__'', ''hasOwnProperty'', ''isPrototypeOf'',
      ''propertyIsEnumerable'', ''toLocaleString'', ''toString'', ''valueOf'',
      ''__defineGetter__'', ''__defineSetter__'', ''__lookupGetter__'', ''__lookupSetter__'']"

definition TRUSTED_ORIGINS_lookup :: "string \<Rightarrow> bool" where
  "TRUSTED_ORIGINS_lookup k \<longleftrightarrow> k \<in> set TRUSTED_ORIGINS \<or> k \<in> set Object_prototype_properties"

text \<open>
  The listener for \<open>message\<close> events of the window, where the messages of the preview
  frame and of the server frame arrive; it returns what it posts on the relay channel.
\<close>

definition window_onmessage :: "string \<Rightarrow> eventData MessageEvent \<Rightarrow> envelope list" where
  "window_onmessage pid event =
     (if \<not> TRUSTED_ORIGINS_lookup (origin_string (origin event)) then []
      else [\<lparr>pageLoaderID = Some pid, payload = data event\<rparr>])"

text \<open>
  A message of a frame, from the window listener of the loader to the relay handler of
  the editor. The relay channel is a \<open>BroadcastChannel\<close>: the editor receives what the
  loader posts, in an event whose origin is the loader page's.
\<close>

fun relayAll ::
  "platform \<Rightarrow> int \<Rightarrow> origin \<Rightarrow> editor \<Rightarrow> envelope list \<Rightarrow> editor \<times> effect list" where
  "relayAll pf now pageOrigin ed [] = (ed, [])"
| "relayAll pf now pageOrigin ed (m # ms) =
     (let (ed1, effs1) = livePreviewChannel_onmessage pf now ed (MessageEvent pageOrigin m);
          (ed2, effs2) = relayAll pf now pageOrigin ed1 ms
      in (ed2, effs1 @ effs2))"

definition frameMessageToEditor ::
  "platform \<Rightarrow> int \<Rightarrow> origin \<Rightarrow> string \<Rightarrow> editor \<Rightarrow> eventData MessageEvent \<Rightarrow> editor \<times> effect list" where
  "frameMessageToEditor pf now pageOrigin pid ed event =
     relayAll pf now pageOrigin ed (window_onmessage pid event)"

text \<open>
  The \<open>onmessage\<close> handler of the relay channel in the loader \<open>pid\<close>, for what the
  editor posts there, \<open>{pageLoaderID, data}\<close>: it returns what it posts to the server
  frame.
\<close>

definition loader_livePreviewChannel_onmessage ::
  "string \<Rightarrow> (string option \<times> 'a) MessageEvent \<Rightarrow> 'a list" where
  "loader_livePreviewChannel_onmessage pid event =
     (if truthy (fst (data event)) \<and> fst (data event) \<noteq> Some pid then []
      else [snd (data event)])"

subsection \<open>The trust gate and the preview frame\<close>

text \<open>
  \<open>trustedProjects\<close> is a JavaScript array that the page uses as a table from project
  root to \<open>true\<close>. An array has its \<open>length\<close>, its elements (the keys that are array
  indices: canonical decimal numerals below \<open>2^32 - 1\<close>) and its other own properties,
  and it inherits the properties of \<open>Array.prototype\<close> (ECMAScript 2023) and of
  \<open>Object.prototype\<close>. The page only ever stores \<open>true\<close>, so the model keeps the
  length, the indices that hold \<open>true\<close> and the other keys that hold \<open>true\<close>.
\<close>

record jsArray =
  arrayLength :: nat
  elements :: "nat set"
  named :: "string set"

definition emptyArray :: jsArray where
  "emptyArray = \<lparr>arrayLength = 0, elements = {}, named = {}\<rparr>"

definition Array_prototype_properties :: "string list" where
  "Array_prototype_properties =
     [''at'', ''concat'', ''constructor'', ''copyWithin'', ''entries'', ''every'', ''fill'',
      ''filter'', ''find'', ''findIndex'', ''findLast'', ''findLastIndex'', ''flat'',
      ''flatMap'', ''forEach'', ''includes'', ''indexOf'', ''join'', ''keys'', ''lastIndexOf'',
      ''map'', ''pop'', ''push'', ''reduce'', ''reduceRight'', ''reverse'', ''shift'', ''slice'',
      ''some'', ''sort'', ''splice'', ''toLocaleString'', ''toReversed'', ''toSorted'',
      ''toSpliced'', ''toString'', ''unshift'', ''values'', ''with'']"

fun decimalValue :: "nat \<Rightarrow> string \<Rightarrow> nat option" where
  "decimalValue acc [] = Some acc"
| "decimalValue acc (c # cs) =
     (if 48 \<le> (of_char c :: nat) \<and> (of_char c :: nat) \<le> 57
      then decimalValue (10 * acc + (of_char c - 48)) cs else None)"

definition arrayIndex :: "string \<Rightarrow> nat option" where
  "arrayIndex k =
     (if k = [] \<or> (hd k = CHR ''0'' \<and> k \<noteq> ''0'') then None
      else case decimalValue 0 k of
             None \<Rightarrow> None
           | Some n \<Rightarrow> if n < 4294967295 then Some n else None)"

text \<open>Whether \<open>a[k]\<close> is truthy.\<close>

definition arrayTruthy :: "jsArray \<Rightarrow> string \<Rightarrow> bool" where
  "arrayTruthy a k =
     (if k = ''length'' then arrayLength a > 0
      else case arrayIndex k of
             Some i \<Rightarrow> i \<in> elements a
           | None \<Rightarrow> k \<in> named a \<or> k \<in> set Array_prototype_properties
                       \<or> k \<in> set Object_prototype_properties)"

text \<open>
  The assignment \<open>a[k] = true\<close>. Assigning to \<open>length\<close> sets the length to 1 and
  deletes the elements from index 1 on; assigning to an index extends the length;
  assigning a value that is not an object to \<open>__proto__\<close> changes nothing.
\<close>

definition arraySetTrue :: "jsArray \<Rightarrow> string \<Rightarrow> jsArray" where
  "arraySetTrue a k =
     (if k = ''length'' then a\<lparr>arrayLength := 1, elements := elements a \<inter> {0}\<rparr>
      else case arrayIndex k of
             Some i \<Rightarrow> a\<lparr>arrayLength := max (arrayLength a) (Suc i),
                          elements := insert i (elements a)\<rparr>
           | None \<Rightarrow> if k = ''__proto__'' then a else a\<lparr>named := insert k (named a)\<rparr>)"

text \<open>
  A key that is neither \<open>length\<close>, nor an array index, nor the name of an inherited
  property; every path that starts with a slash is one.
\<close>

definition ordinaryKey :: "string \<Rightarrow> bool" where
  "ordinaryKey k \<longleftrightarrow>
     k \<noteq> ''length'' \<and> arrayIndex k = None \<and> k \<notin> set Array_prototype_properties
     \<and> k \<notin> set Object_prototype_properties"

text \<open>
  Browser functions the loader calls: \<open>decodeURIComponent\<close> (\<open>None\<close> when it throws
  \<open>URIError\<close>), and \<open>srcOf\<close>, the URL that reading \<open>previewFrame.src\<close> gives for a value of
  the attribute. They are parameters of the model.
\<close>

record browser =
  decodeURIComponent :: "string \<Rightarrow> string option"
  srcOf :: "string \<Rightarrow> string"

text \<open>
  The state of the page: its script's variables, the \<open>src\<close> attribute of
  \<open>previewFrame\<close> with every value assigned to it so far (each assignment navigates the
  frame), the inline \<open>display\<close> style of the dialog \<open>outer-container\<close> (an element of
  the page's markup, so it is always found; the style is empty at first and the style sheet
  shows the dialog), title, icon and \<open>sessionStorage\<close>. The label of the OK button,
  which the handlers also write, is left out.
  A project root is the property key it is used as (\<open>null\<close> for a missing
  \<open>initialProjectRoot\<close>).
\<close>

record loader =
  securityAlertAcknowledged :: bool
  previewURL :: "string option"
  trustedProjects :: jsArray
  currentProjectRoot :: string
  previewFrame_src :: string
  previewFrame_loads :: "string list"
  dialog_display :: string
  document_title :: string
  favicon_href :: "string option"
  sessionStorage :: "string \<rightharpoonup> string"

datatype outcome = Completed | Threw string

text \<open>Conversion of a possibly undefined string to a string.\<close>

fun jsString :: "string option \<Rightarrow> string" where
  "jsString None = ''undefined''"
| "jsString (Some s) = s"

definition setPreviewFrameSrc :: "string \<Rightarrow> loader \<Rightarrow> loader" where
  "setPreviewFrameSrc v st =
     st\<lparr>previewFrame_src := v, previewFrame_loads := previewFrame_loads st @ [v]\<rparr>"

definition SESSION_SECURITY_CLEAR_KEY :: string where
  "SESSION_SECURITY_CLEAR_KEY = ''LIVE_PREVIEW_SESSION_SECURITY_CLEAR''"

text \<open>\<open>isTrusted\<close>: whether \<open>trustedProjects[root]\<close> is truthy.\<close>

definition isTrusted :: "loader \<Rightarrow> string \<Rightarrow> bool" where
  "isTrusted st root \<longleftrightarrow> arrayTruthy (trustedProjects st) root"

text \<open>
  \<open>securityOk\<close>, the trust action of the OK button. When \<open>decodeURIComponent\<close>
  throws, the statements after it are not executed.
\<close>

definition securityOk :: "browser \<Rightarrow> loader \<Rightarrow> outcome \<times> loader" where
  "securityOk br st =
     (let st1 = st\<lparr>dialog_display := ''none''\<rparr> in
      case decodeURIComponent br (jsString (previewURL st1)) of
        None \<Rightarrow> (Threw ''URIError'', st1)
      | Some u \<Rightarrow>
          (Completed,
           (setPreviewFrameSrc u st1)
             \<lparr>securityAlertAcknowledged := True,
              trustedProjects := arraySetTrue (trustedProjects st1) (currentProjectRoot st1),
              sessionStorage := (sessionStorage st1)
                (SESSION_SECURITY_CLEAR_KEY @ currentProjectRoot st1 \<mapsto> ''true'')\<rparr>))"

text \<open>The \<open>onmessage\<close> handler of the navigation channel in the loader \<open>pid\<close>.\<close>

definition loader_navigatorChannel_onmessage ::
  "browser \<Rightarrow> string \<Rightarrow> loader \<Rightarrow> navMessage MessageEvent \<Rightarrow> outcome \<times> loader" where
  "loader_navigatorChannel_onmessage br pid st event =
     (case data event of
        INITIAL_URL_NAVIGATE url pid' \<Rightarrow>
          (let st1 = st\<lparr>previewURL := url\<rparr> in
           if \<not> securityAlertAcknowledged st1 \<or> pid' \<noteq> pid then (Completed, st1)
           else (Completed, setPreviewFrameSrc (jsString url) st1))
      | REDIRECT_PAGE url force \<Rightarrow>
          (let st1 = st\<lparr>previewURL := url\<rparr> in
           if \<not> securityAlertAcknowledged st1 then (Completed, st1)
           else if force \<or> Some (srcOf br (previewFrame_src st1)) \<noteq> url
           then (Completed, setPreviewFrameSrc (jsString url) st1)
           else (Completed, st1))
      | UPDATE_TITLE_ICON title faviconBase64 \<Rightarrow>
          (Completed,
           st\<lparr>document_title := (case title of Some t \<Rightarrow> t | None \<Rightarrow> document_title st),
              favicon_href := (if truthy faviconBase64 then faviconBase64 else favicon_href st)\<rparr>)
      | PROJECT_SWITCH projectRoot \<Rightarrow>
          (let st1 = st\<lparr>currentProjectRoot := projectRoot\<rparr> in
           if arrayTruthy (trustedProjects st1) (currentProjectRoot st1)
           then
             (let st2 = st1\<lparr>dialog_display := ''none''\<rparr> in
              case decodeURIComponent br (jsString (previewURL st2)) of
                None \<Rightarrow> (Threw ''URIError'', st2)
              | Some u \<Rightarrow>
                  (Completed, (setPreviewFrameSrc u st2)\<lparr>securityAlertAcknowledged := True\<rparr>))
           else
             (Completed,
              (setPreviewFrameSrc ''about:blank'' (st1\<lparr>securityAlertAcknowledged := False\<rparr>))
                \<lparr>dialog_display := ''flex''\<rparr>))
      | _ \<Rightarrow> (Completed, st))"

text \<open>
  The page as \<open>setupNavigationWatcher\<close> leaves it: \<open>root\<close> is the \<open>initialProjectRoot\<close>
  of the query string, \<open>storage\<close> the session storage found.
\<close>

definition initialLoader :: "string \<Rightarrow> (string \<rightharpoonup> string) \<Rightarrow> loader" where
  "initialLoader root storage =
     \<lparr>securityAlertAcknowledged = False, previewURL = None, trustedProjects = emptyArray,
      currentProjectRoot = root, previewFrame_src = ''about:blank'', previewFrame_loads = [],
      dialog_display = [], document_title = ''Phoenix Live Preview Loader...'',
      favicon_href = None, sessionStorage = storage\<rparr>"

definition setupNavigationWatcher :: "browser \<Rightarrow> string \<Rightarrow> (string \<rightharpoonup> string) \<Rightarrow> loader" where
  "setupNavigationWatcher br root storage =
     (let st = initialLoader root storage in
      if truthy (sessionStorage st (SESSION_SECURITY_CLEAR_KEY @ currentProjectRoot st))
      then snd (securityOk br st) else st)"

text \<open>What happens to the page: a message of the navigation channel, or a click on OK.\<close>

datatype loaderEvent = NavigatorMessage "navMessage MessageEvent" | OkButtonClick

fun loaderStep :: "browser \<Rightarrow> string \<Rightarrow> loader \<Rightarrow> loaderEvent \<Rightarrow> loader" where
  "loaderStep br pid st (NavigatorMessage event) = snd (loader_navigatorChannel_onmessage br pid st event)"
| "loaderStep br pid st OkButtonClick = snd (securityOk br st)"

definition loaderRun :: "browser \<Rightarrow> string \<Rightarrow> loader \<Rightarrow> loaderEvent list \<Rightarrow> loader" where
  "loaderRun br pid st evs = foldl (loaderStep br pid) st evs"

text \<open>
  The tab loaded again: the page is set up anew from the query string of its URL, which
  the page never changes, and from the session storage as the page before left it. The
  page draws a new \<open>pageLoaderID\<close>.
\<close>

definition reloadPage :: "browser \<Rightarrow> string \<Rightarrow> loader \<Rightarrow> loader" where
  "reloadPage br root st = setupNavigationWatcher br root (sessionStorage st)"

text \<open>
  \<open>loaderInv\<close>: the acknowledged flag is set only while \<open>trustedProjects\<close> is truthy
  at the current project root, and the frame shows \<open>about:blank\<close> while the flag is not
  set.
\<close>

definition loaderInv :: "loader \<Rightarrow> bool" where
  "loaderInv st \<longleftrightarrow>
     (securityAlertAcknowledged st \<longrightarrow> isTrusted st (currentProjectRoot st))
     \<and> (\<not> securityAlertAcknowledged st \<longrightarrow> previewFrame_src st = ''about:blank'')"

section \<open>Example instances\<close>

text \<open>
  Concrete collaborators and states, for evaluating the definitions. \<open>example_new_URL\<close>
  and \<open>example_href\<close> parse and serialise \<open>https\<close> URLs that have no fragment and no
  escapes; the renderers wrap their argument; document keys and full paths are the paths
  themselves; the project root is \<open>/proj/\<close>.
\<close>

fun split_on :: "char \<Rightarrow> string \<Rightarrow> string list" where
  "split_on c [] = [[]]"
| "split_on c (x # xs) =
     (if x = c then [] # split_on c xs
      else (case split_on c xs of y # ys \<Rightarrow> (x # y) # ys | [] \<Rightarrow> [[x]]))"

definition example_new_URL :: "string \<Rightarrow> jsurl option" where
  "example_new_URL s =
     (if \<not> prefix ''https://'' s then None
      else
        let loc = takeWhile (\<lambda>c. c \<noteq> CHR ''?'') s;
            query = drop (Suc (length loc)) s
        in Some \<lparr>location = loc,
                 searchParams =
                   (if query = [] then []
                    else map (\<lambda>kv. (takeWhile (\<lambda>c. c \<noteq> CHR ''='') kv,
                                     drop (Suc (length (takeWhile (\<lambda>c. c \<noteq> CHR ''='') kv))) kv))
                           (split_on CHR ''&'' query)),
                 fragment = []\<rparr>)"

fun join_query :: "(string \<times> string) list \<Rightarrow> string" where
  "join_query [] = []"
| "join_query [(k, v)] = k @ ''='' @ v"
| "join_query ((k, v) # kvs) = k @ ''='' @ v @ ''&'' @ join_query kvs"

definition example_href :: "jsurl \<Rightarrow> string" where
  "example_href u =
     location u @ (if searchParams u = [] then [] else ''?'' @ join_query (searchParams u))
       @ fragment u"

definition example_platform :: platform where
  "example_platform =
     \<lparr>new_URL = example_new_URL, URL_href = example_href,
      getRemoteScript = ''<script>/*remote*/</script>'',
      isMarkdownFile = suffix ''.md'',
      renderMarkdownPage = (\<lambda>t. Some (''<html><body>'' @ t @ ''</body></html>'')),
      renderRedirectionPage = (\<lambda>u. ''<script>location.href='' @ u @ ''</script>''),
      documentKey = (\<lambda>p. p), fullPath = (\<lambda>p. p)\<rparr>"

definition example_baseUrl :: string where
  "example_baseUrl = ''https://phcode.live/vfs/PHOENIX_LIVE_PREVIEW_1''"

definition example_server :: StaticServer where
  "example_server =
     \<lparr>baseUrl = example_baseUrl,
      liveDocuments = [''/proj/old.html'' \<mapsto> LiveDocument (Some ''<html>old</html>'')],
      virtualServingDocuments =
        [''/proj/readme.md'' \<mapsto> ''OVERLAY'', ''/proj/virtual.html'' \<mapsto> ''<p>virtual</p>'']\<rparr>"

definition example_editor :: editor where
  "example_editor =
     \<lparr>staticServerInstance = Some example_server,
      isWithinProject = prefix ''/proj/'',
      currentFile = Some ''/proj/readme.md'',
      getDocumentForPath =
        (\<lambda>p. if p = ''/proj/readme.md'' then DocumentDone True (Some ''# Hi'')
             else if p = ''/outside/notes.md'' then DocumentDone True (Some ''# Notes'')
             else DocumentFails ''NotFound''),
      getOpenDocumentForPath = [''/proj/readme.md'' \<mapsto> ''# Hi''],
      readFile = [''/proj/index.html'' \<mapsto> [60, 112, 62]],
      livePreviewTabs = [],
      currentPopoutURL = Some (example_baseUrl @ ''/proj/new.html'')\<rparr>"

text \<open>
  A browser for preview URLs without escapes: \<open>decodeURIComponent\<close> returns such a
  string as it is (the example lets every other string throw), and an absolute URL is
  reflected by \<open>src\<close> as it was assigned.
\<close>

definition example_browser :: browser where
  "example_browser =
     \<lparr>decodeURIComponent = (\<lambda>s. if CHR ''%'' \<in> set s then None else Some s),
      srcOf = (\<lambda>s. s)\<rparr>"

text \<open>
  A loader opened for the project \<open>/proj/\<close> in a fresh session, the same loader after
  a redirect and a click on OK, and a tab that sends a heartbeat every second for twelve
  seconds while the sweep runs half a second after each.

  Two histories of that loader. In \<open>example_before_reload\<close> the user trusts \<open>/proj/\<close>,
  then the editor switches to the project \<open>/other/\<close> and redirects to a file of it;
  \<open>example_after_reload\<close> is the tab loaded again after that. In \<open>example_two_trusted\<close>
  the user trusts \<open>/proj/\<close>, the editor switches to \<open>/other/\<close>, and the user trusts
  \<open>/other/\<close> too.
\<close>

definition example_previewURL :: string where
  "example_previewURL = example_baseUrl @ ''/proj/index.html''"

definition example_loader :: loader where
  "example_loader = setupNavigationWatcher example_browser ''/proj/'' Map.empty"

definition example_origin :: origin where
  "example_origin = TupleOrigin ''https'' ''phcode.dev'' None"

definition example_trusted_loader :: loader where
  "example_trusted_loader =
     loaderRun example_browser ''loader-1'' example_loader
       [NavigatorMessage (MessageEvent example_origin (REDIRECT_PAGE (Some example_previewURL) False)),
        OkButtonClick]"

definition example_otherURL :: string where
  "example_otherURL = example_baseUrl @ ''/other/index.html''"

definition example_before_reload :: loader where
  "example_before_reload =
     loaderRun example_browser ''loader-1'' example_trusted_loader
       [NavigatorMessage (MessageEvent example_origin (PROJECT_SWITCH ''/other/'')),
        NavigatorMessage (MessageEvent example_origin (REDIRECT_PAGE (Some example_otherURL) False))]"

definition example_after_reload :: loader where
  "example_after_reload = reloadPage example_browser ''/proj/'' example_before_reload"

definition example_two_trusted :: loader where
  "example_two_trusted =
     loaderRun example_browser ''loader-1'' example_trusted_loader
       [NavigatorMessage (MessageEvent example_origin (PROJECT_SWITCH ''/other/'')),
        NavigatorMessage (MessageEvent example_origin (REDIRECT_PAGE (Some example_otherURL) False)),
        OkButtonClick]"



section \<open>Properties of the resolver\<close>

subsection \<open>Which tier answers\<close>

text \<open>
  The project check of \<open>_getInstrumentedContent\<close> comes before every tier: outside the
  project the response has null contents whatever the overlay, the live documents, the
  open documents and the disk hold, and nothing is read.
\<close>

lemma getInstrumentedContent_outside_project:
  "\<not> isWithinProject ed p \<Longrightarrow>
   getInstrumentedContent pf ed srv p url =
     ([], Resolved \<lparr>path = documentKey pf p, contents = None, headers = None\<rparr>)"
  by (simp add: getInstrumentedContent_def Let_def)

theorem getInstrumentedContent_outside_project_witness:
  "\<not> isWithinProject example_editor ''/outside/page.html''
   \<and> getInstrumentedContent example_platform example_editor
        (example_server\<lparr>virtualServingDocuments := [''/outside/page.html'' \<mapsto> ''<p>overlay</p>'']\<rparr>)
        ''/outside/page.html'' (example_baseUrl @ ''/outside/page.html'')
     = ([], Resolved \<lparr>path = ''/outside/page.html'', contents = None, headers = None\<rparr>)"
proof -
  have a: "\<not> isWithinProject example_editor ''/outside/page.html''" by code_simp
  have b: "documentKey example_platform ''/outside/page.html'' = ''/outside/page.html''"
    by code_simp
  from getInstrumentedContent_outside_project [OF a, of example_platform] a b
  show ?thesis by simp
qed

lemma getContent_reaches_resolver:
  "staticServerInstance ed = Some srv \<Longrightarrow> prefix (baseUrl srv) url \<Longrightarrow>
   \<not> (isMarkdownFile pf p \<and> currentFile ed = Some p) \<Longrightarrow>
   getContent pf ed p url = getInstrumentedContent pf ed srv p url"
  by (auto simp add: getContent_def)

lemma getContent_markdown_tier:
  "staticServerInstance ed = Some srv \<Longrightarrow> prefix (baseUrl srv) url \<Longrightarrow>
   isMarkdownFile pf p \<Longrightarrow> currentFile ed = Some p \<Longrightarrow>
   getContent pf ed p url = getMarkdown pf ed p"
  by (simp add: getContent_def)

lemma disk_tier_result:
  "fst (getInstrumentedContent pf ed srv p url) \<noteq> [] \<Longrightarrow>
   getInstrumentedContent pf ed srv p url =
     ([p], Resolved \<lparr>path = documentKey pf p,
                      contents = map_option Bytes (readFile ed p), headers = None\<rparr>)"
  by (auto simp add: getInstrumentedContent_def Let_def
      split: option.splits liveDocument.splits if_splits)

lemma GET_CONTENT_handled:
  "livePreviewChannel_onmessage pf now ed
     (MessageEvent og \<lparr>pageLoaderID = pid, payload = GET_CONTENT p url rid\<rparr>) =
     (ed, map FsReadFile (fst (getContent pf ed p url)) @
          (case snd (getContent pf ed p url) of
             Resolved r \<Rightarrow> [SendToLivePreviewServerTabs pid (REQUEST_RESPONSE rid r)]
           | Rejected e \<Rightarrow> [ConsoleError e]
           | Pending \<Rightarrow> []))"
  by (cases "getContent pf ed p url")
     (auto simp add: livePreviewChannel_onmessage_def split: promise.splits)

text \<open>
  Claim C1 (paths outside the project root always resolve to null contents, and no tier,
  the markdown tier of \<open>getContent\<close> included, comes before the check). The code at a
  request it can receive: the file being edited is a markdown file outside the project
  root \<open>/proj/\<close>, and a surface asks for it. \<open>getContent\<close> returns from its markdown
  branch before \<open>_getInstrumentedContent\<close> and its project check are reached, and the
  response carries the rendered document.
\<close>

theorem C1_markdown_outside_project:
  "\<not> isWithinProject (example_editor\<lparr>currentFile := Some ''/outside/notes.md''\<rparr>) ''/outside/notes.md''
   \<and> getContent example_platform (example_editor\<lparr>currentFile := Some ''/outside/notes.md''\<rparr>)
         ''/outside/notes.md'' (example_baseUrl @ ''/outside/notes.md'')
       = ([], Resolved \<lparr>path = ''/outside/notes.md'',
                        contents = Some (Text ''<html><body># Notes</body></html>''),
                        headers = Some [(''Content-Type'', ''text/html'')]\<rparr>)"
  by code_simp

text \<open>
  Claim C4 (for a path inside the project root that has an overlay entry, resolution
  returns the overlay content, ahead of every other source, the markdown rendering of the
  file being edited included). The code at a request it can receive: \<open>/proj/readme.md\<close>
  is inside the project and has the overlay \<open>OVERLAY\<close>, and it is the file being
  edited. \<open>getContent\<close> returns from its markdown branch before
  \<open>_getInstrumentedContent\<close> and its overlay tier are reached, and the response is the
  rendering of the editor's text.
\<close>

theorem C4_markdown_before_overlay:
  "isWithinProject example_editor ''/proj/readme.md''
   \<and> virtualServingDocuments example_server (documentKey example_platform ''/proj/readme.md'')
       = Some ''OVERLAY''
   \<and> getContent example_platform example_editor ''/proj/readme.md''
         (example_baseUrl @ ''/proj/readme.md'')
       = ([], Resolved \<lparr>path = ''/proj/readme.md'',
                        contents = Some (Text ''<html><body># Hi</body></html>''),
                        headers = Some [(''Content-Type'', ''text/html'')]\<rparr>)"
  by code_simp

text \<open>
  Inside \<open>_getInstrumentedContent\<close> the overlay does come first: for a path inside the
  project root whose document key has a non-empty overlay entry, and a URL that parses,
  the response is the overlay text as it is, whatever live document, open document or
  file there is for the path; \<open>getContent\<close> hands it every request that it neither
  rejects nor renders as markdown.
\<close>

lemma overlay_precedence:
  "(isWithinProject ed p \<and> new_URL pf url = Some u
      \<and> virtualServingDocuments srv (documentKey pf p) = Some v \<and> v \<noteq> []
    \<longrightarrow> getInstrumentedContent pf ed srv p url =
          ([], Resolved \<lparr>path = documentKey pf p, contents = Some (Text v),
                          headers = htmlHeaders (documentKey pf p)\<rparr>))
   \<and> (staticServerInstance ed = Some srv \<and> prefix (baseUrl srv) url
      \<and> \<not> (isMarkdownFile pf p \<and> currentFile ed = Some p)
    \<longrightarrow> getContent pf ed p url = getInstrumentedContent pf ed srv p url)"
  by (simp add: getInstrumentedContent_def Let_def getContent_reaches_resolver)

theorem overlay_precedence_witness:
  "getContent example_platform example_editor ''/proj/virtual.html''
         (example_baseUrl @ ''/proj/virtual.html'')
       = ([], Resolved \<lparr>path = ''/proj/virtual.html'',
                        contents = Some (Text ''<p>virtual</p>''),
                        headers = Some [(''Content-Type'', ''text/html;charset=UTF-8'')]\<rparr>)"
proof -
  have a: "isWithinProject example_editor ''/proj/virtual.html''" by code_simp
  have b: "new_URL example_platform (example_baseUrl @ ''/proj/virtual.html'')
             = Some \<lparr>location = example_baseUrl @ ''/proj/virtual.html'', searchParams = [], fragment = []\<rparr>"
    by code_simp
  have c: "virtualServingDocuments example_server (documentKey example_platform ''/proj/virtual.html'')
             = Some ''<p>virtual</p>''" by code_simp
  have d: "staticServerInstance example_editor = Some example_server"
    by (simp add: example_editor_def)
  have e: "prefix (baseUrl example_server) (example_baseUrl @ ''/proj/virtual.html'')" by code_simp
  have f: "\<not> (isMarkdownFile example_platform ''/proj/virtual.html''
               \<and> currentFile example_editor = Some ''/proj/virtual.html'')" by code_simp
  have g: "htmlHeaders (documentKey example_platform ''/proj/virtual.html'')
             = Some [(''Content-Type'', ''text/html;charset=UTF-8'')]" by code_simp
  have h: "documentKey example_platform ''/proj/virtual.html'' = ''/proj/virtual.html''" by code_simp
  from overlay_precedence [of example_editor "''/proj/virtual.html''" example_platform
      "example_baseUrl @ ''/proj/virtual.html''" _ example_server "''<p>virtual</p>''"]
    a b c d e f g h
  show ?thesis by simp
qed

text \<open>
  Claim C5, as amended. When the request's URL has a non-empty \<open>phcodeLivePreview\<close>
  parameter, the path is inside the project, no non-empty overlay shadows it and the
  body of its live document does not contain the remote script, the response is the
  redirection page for the request's own URL with every \<open>phcodeLivePreview\<close> pair
  removed.
\<close>

theorem C5_stale_redirect:
  "isWithinProject ed p \<Longrightarrow> new_URL pf url = Some u \<Longrightarrow>
   truthy (searchParams_get u PHCODE_LIVE_PREVIEW_QUERY_PARAM) \<Longrightarrow>
   \<not> truthy (virtualServingDocuments srv (documentKey pf p)) \<Longrightarrow>
   liveDocuments srv (documentKey pf p) = Some (LiveDocument (Some b)) \<Longrightarrow>
   \<not> sublist (getRemoteScript pf) b \<Longrightarrow>
   getInstrumentedContent pf ed srv p url =
     ([], Resolved \<lparr>path = documentKey pf p,
        contents = Some (Text (renderRedirectionPage pf
          (URL_href pf (searchParams_delete u PHCODE_LIVE_PREVIEW_QUERY_PARAM)))),
        headers = htmlHeaders (documentKey pf p)\<rparr>)
   \<and> searchParams_get (searchParams_delete u PHCODE_LIVE_PREVIEW_QUERY_PARAM)
         PHCODE_LIVE_PREVIEW_QUERY_PARAM = None"
proof
  assume "isWithinProject ed p" "new_URL pf url = Some u"
    "truthy (searchParams_get u PHCODE_LIVE_PREVIEW_QUERY_PARAM)"
    "\<not> truthy (virtualServingDocuments srv (documentKey pf p))"
    "liveDocuments srv (documentKey pf p) = Some (LiveDocument (Some b))"
    "\<not> sublist (getRemoteScript pf) b"
  then show "getInstrumentedContent pf ed srv p url =
     ([], Resolved \<lparr>path = documentKey pf p,
        contents = Some (Text (renderRedirectionPage pf
          (URL_href pf (searchParams_delete u PHCODE_LIVE_PREVIEW_QUERY_PARAM)))),
        headers = htmlHeaders (documentKey pf p)\<rparr>)"
    by (simp add: getInstrumentedContent_def Let_def getRedirectionPage_def)
next
  show "searchParams_get (searchParams_delete u PHCODE_LIVE_PREVIEW_QUERY_PARAM)
         PHCODE_LIVE_PREVIEW_QUERY_PARAM = None"
    by (auto simp add: searchParams_get_def searchParams_delete_def map_of_eq_None_iff)
qed

text \<open>
  Claim C5 as stated fails: the preview has moved on to \<open>new.html\<close>
  (\<open>currentPopoutURL\<close>), a popped-out tab asks for \<open>old.html\<close>, and the redirection
  page it gets points at \<open>old.html\<close>.
\<close>

theorem C5_counterexample:
  "currentPopoutURL example_editor = Some (example_baseUrl @ ''/proj/new.html'')
   \<and> getContent example_platform example_editor ''/proj/old.html''
         (example_baseUrl @ ''/proj/old.html?phcodeLivePreview=true'')
       = ([], Resolved \<lparr>path = ''/proj/old.html'',
            contents = Some (Text (renderRedirectionPage example_platform
                                     (example_baseUrl @ ''/proj/old.html''))),
            headers = Some [(''Content-Type'', ''text/html;charset=UTF-8'')]\<rparr>)
   \<and> renderRedirectionPage example_platform (example_baseUrl @ ''/proj/old.html'')
       \<noteq> renderRedirectionPage example_platform (example_baseUrl @ ''/proj/new.html'')"
  by code_simp

theorem C5_stale_redirect_witness:
  "getInstrumentedContent example_platform example_editor example_server ''/proj/old.html''
         (example_baseUrl @ ''/proj/old.html?phcodeLivePreview=true'')
       = ([], Resolved \<lparr>path = ''/proj/old.html'',
            contents = Some (Text (renderRedirectionPage example_platform
                                     (example_baseUrl @ ''/proj/old.html''))),
            headers = Some [(''Content-Type'', ''text/html;charset=UTF-8'')]\<rparr>)"
proof -
  let ?u = "\<lparr>location = example_baseUrl @ ''/proj/old.html'',
             searchParams = [(''phcodeLivePreview'', ''true'')], fragment = []\<rparr>"
  have a: "isWithinProject example_editor ''/proj/old.html''" by code_simp
  have b: "new_URL example_platform (example_baseUrl @ ''/proj/old.html?phcodeLivePreview=true'')
             = Some ?u"
    by code_simp
  have c: "truthy (searchParams_get ?u PHCODE_LIVE_PREVIEW_QUERY_PARAM)" by code_simp
  have d: "\<not> truthy (virtualServingDocuments example_server
                       (documentKey example_platform ''/proj/old.html''))" by code_simp
  have e: "liveDocuments example_server (documentKey example_platform ''/proj/old.html'')
             = Some (LiveDocument (Some ''<html>old</html>''))" by code_simp
  have f: "\<not> sublist (getRemoteScript example_platform) ''<html>old</html>''" by code_simp
  have g: "htmlHeaders (documentKey example_platform ''/proj/old.html'')
             = Some [(''Content-Type'', ''text/html;charset=UTF-8'')]" by code_simp
  have h: "documentKey example_platform ''/proj/old.html'' = ''/proj/old.html''" by code_simp
  have i: "URL_href example_platform (searchParams_delete ?u PHCODE_LIVE_PREVIEW_QUERY_PARAM)
             = example_baseUrl @ ''/proj/old.html''" by code_simp
  from C5_stale_redirect [OF a b c d e f] g h i show ?thesis by simp
qed

text \<open>
  Claim C6, as amended. A request that reaches \<open>fs.readFile\<close> and meets a read error
  resolves with null contents. The relay handler answers a resolved \<open>getContent\<close> with
  one \<open>REQUEST_RESPONSE\<close> carrying the request's ID, hands a rejected one to
  \<open>console.error\<close> and sends nothing, and does nothing for one that stays unsettled.
  \<open>getContent\<close> rejects when the server is not started, when the URL does not start
  with the server's base URL, when the document of the markdown file being edited cannot
  be had, when its rendering throws inside the executor, and when the URL of a request for
  another path inside the project does not parse; its promise stays unsettled when the
  rendering throws after the document was delivered later.
\<close>

theorem C6_disk_error_soft_404:
  "(fst (getInstrumentedContent pf ed srv p url) \<noteq> [] \<and> readFile ed p = None
    \<longrightarrow> getInstrumentedContent pf ed srv p url =
          ([p], Resolved \<lparr>path = documentKey pf p, contents = None, headers = None\<rparr>))
   \<and> livePreviewChannel_onmessage pf now ed
        (MessageEvent og \<lparr>pageLoaderID = pid, payload = GET_CONTENT p url rid\<rparr>) =
        (ed, map FsReadFile (fst (getContent pf ed p url)) @
             (case snd (getContent pf ed p url) of
                Resolved r \<Rightarrow> [SendToLivePreviewServerTabs pid (REQUEST_RESPONSE rid r)]
              | Rejected e \<Rightarrow> [ConsoleError e]
              | Pending \<Rightarrow> []))
   \<and> (staticServerInstance ed = None
      \<longrightarrow> getContent pf ed p url = ([], Rejected (Reason ''Static serve not started!'')))
   \<and> (staticServerInstance ed = Some srv \<and> \<not> prefix (baseUrl srv) url
      \<longrightarrow> getContent pf ed p url =
            ([], Rejected (Reason
               (''Not serving content as url belongs to another phcode instance: '' @ url))))
   \<and> (staticServerInstance ed = Some srv \<and> prefix (baseUrl srv) url
        \<and> isMarkdownFile pf p \<and> currentFile ed = Some p
      \<longrightarrow> (getDocumentForPath ed p = DocumentFails err
            \<longrightarrow> getContent pf ed p url =
                  ([], Rejected (Reason (''Markdown rendering failed for '' @ p @ '': '' @ err))))
          \<and> (getDocumentForPath ed p = DocumentDone True text'
               \<and> Option.bind text' (renderMarkdownPage pf) = None
            \<longrightarrow> getContent pf ed p url = ([], Rejected Thrown))
          \<and> (getDocumentForPath ed p = DocumentDone False text'
               \<and> Option.bind text' (renderMarkdownPage pf) = None
            \<longrightarrow> getContent pf ed p url = ([], Pending)))
   \<and> (staticServerInstance ed = Some srv \<and> prefix (baseUrl srv) url
        \<and> \<not> (isMarkdownFile pf p \<and> currentFile ed = Some p)
        \<and> isWithinProject ed p \<and> new_URL pf url = None
      \<longrightarrow> getContent pf ed p url = ([], Rejected Thrown))"
proof (intro conjI impI)
  assume "fst (getInstrumentedContent pf ed srv p url) \<noteq> [] \<and> readFile ed p = None"
  then show "getInstrumentedContent pf ed srv p url =
          ([p], Resolved \<lparr>path = documentKey pf p, contents = None, headers = None\<rparr>)"
    using disk_tier_result [of pf ed srv p url] by simp
next
  show "livePreviewChannel_onmessage pf now ed
        (MessageEvent og \<lparr>pageLoaderID = pid, payload = GET_CONTENT p url rid\<rparr>) =
        (ed, map FsReadFile (fst (getContent pf ed p url)) @
             (case snd (getContent pf ed p url) of
                Resolved r \<Rightarrow> [SendToLivePreviewServerTabs pid (REQUEST_RESPONSE rid r)]
              | Rejected e \<Rightarrow> [ConsoleError e]
              | Pending \<Rightarrow> []))"
    by (rule GET_CONTENT_handled)
next
  assume "staticServerInstance ed = None"
  then show "getContent pf ed p url = ([], Rejected (Reason ''Static serve not started!''))"
    by (simp add: getContent_def)
next
  assume "staticServerInstance ed = Some srv \<and> \<not> prefix (baseUrl srv) url"
  then show "getContent pf ed p url =
            ([], Rejected (Reason
               (''Not serving content as url belongs to another phcode instance: '' @ url)))"
    by (simp add: getContent_def)
next
  assume md: "staticServerInstance ed = Some srv \<and> prefix (baseUrl srv) url
        \<and> isMarkdownFile pf p \<and> currentFile ed = Some p"
  assume "getDocumentForPath ed p = DocumentFails err"
  with md show "getContent pf ed p url =
                  ([], Rejected (Reason (''Markdown rendering failed for '' @ p @ '': '' @ err)))"
    by (simp add: getContent_def getMarkdown_def)
next
  assume md: "staticServerInstance ed = Some srv \<and> prefix (baseUrl srv) url
        \<and> isMarkdownFile pf p \<and> currentFile ed = Some p"
  assume "getDocumentForPath ed p = DocumentDone True text'
               \<and> Option.bind text' (renderMarkdownPage pf) = None"
  with md show "getContent pf ed p url = ([], Rejected Thrown)"
    by (simp add: getContent_def getMarkdown_def)
next
  assume md: "staticServerInstance ed = Some srv \<and> prefix (baseUrl srv) url
        \<and> isMarkdownFile pf p \<and> currentFile ed = Some p"
  assume "getDocumentForPath ed p = DocumentDone False text'
               \<and> Option.bind text' (renderMarkdownPage pf) = None"
  with md show "getContent pf ed p url = ([], Pending)"
    by (simp add: getContent_def getMarkdown_def)
next
  assume "staticServerInstance ed = Some srv \<and> prefix (baseUrl srv) url
        \<and> \<not> (isMarkdownFile pf p \<and> currentFile ed = Some p)
        \<and> isWithinProject ed p \<and> new_URL pf url = None"
  then show "getContent pf ed p url = ([], Rejected Thrown)"
    by (auto simp add: getContent_def getInstrumentedContent_def Let_def)
qed

text \<open>
  Claim C6 as stated fails: a request whose URL belongs to another instance is rejected,
  and the surface receives no response.
\<close>

theorem C6_counterexample:
  "snd (livePreviewChannel_onmessage example_platform 0 example_editor
     (MessageEvent (TupleOrigin ''https'' ''phcode.dev'' None)
        \<lparr>pageLoaderID = Some ''loader-1'',
         payload = GET_CONTENT ''/proj/index.html''
                     ''https://phcode.live/vfs/PHOENIX_LIVE_PREVIEW_2/proj/index.html'' ''r1''\<rparr>))
   = [ConsoleError (Reason (''Not serving content as url belongs to another phcode instance: ''
        @ ''https://phcode.live/vfs/PHOENIX_LIVE_PREVIEW_2/proj/index.html''))]"
  by code_simp

theorem C6_disk_error_soft_404_witness:
  "getInstrumentedContent example_platform example_editor example_server ''/proj/missing.png''
      (example_baseUrl @ ''/proj/missing.png'')
     = ([''/proj/missing.png''],
        Resolved \<lparr>path = ''/proj/missing.png'', contents = None, headers = None\<rparr>)
   \<and> snd (livePreviewChannel_onmessage example_platform 0 example_editor
        (MessageEvent (TupleOrigin ''https'' ''phcode.dev'' None)
           \<lparr>pageLoaderID = Some ''loader-1'',
            payload = GET_CONTENT ''/proj/missing.png'' (example_baseUrl @ ''/proj/missing.png'') ''r1''\<rparr>))
     = [FsReadFile ''/proj/missing.png'',
        SendToLivePreviewServerTabs (Some ''loader-1'')
          (REQUEST_RESPONSE ''r1'' \<lparr>path = ''/proj/missing.png'', contents = None, headers = None\<rparr>)]
   \<and> getContent example_platform (example_editor\<lparr>staticServerInstance := None\<rparr>)
        ''/proj/index.html'' (example_baseUrl @ ''/proj/index.html'')
     = ([], Rejected (Reason ''Static serve not started!''))
   \<and> getContent example_platform (example_editor\<lparr>currentFile := Some ''/proj/gone.md''\<rparr>)
        ''/proj/gone.md'' (example_baseUrl @ ''/proj/gone.md'')
     = ([], Rejected (Reason ''Markdown rendering failed for /proj/gone.md: NotFound''))
   \<and> getContent (example_platform\<lparr>renderMarkdownPage := (\<lambda>t. None)\<rparr>) example_editor
        ''/proj/readme.md'' (example_baseUrl @ ''/proj/readme.md'')
     = ([], Rejected Thrown)
   \<and> getContent (example_platform\<lparr>renderMarkdownPage := (\<lambda>t. None)\<rparr>)
        (example_editor\<lparr>getDocumentForPath := (\<lambda>p. DocumentDone False (Some ''# Hi''))\<rparr>)
        ''/proj/readme.md'' (example_baseUrl @ ''/proj/readme.md'')
     = ([], Pending)"
proof -
  let ?p = "''/proj/missing.png''"
  let ?url = "example_baseUrl @ ''/proj/missing.png''"
  let ?og = "TupleOrigin ''https'' ''phcode.dev'' None"
  let ?throwing = "example_platform\<lparr>renderMarkdownPage := (\<lambda>t. None)\<rparr>"
  let ?later = "example_editor\<lparr>getDocumentForPath := (\<lambda>p. DocumentDone False (Some ''# Hi''))\<rparr>"
  let ?md = "''/proj/readme.md''"
  let ?mdurl = "example_baseUrl @ ''/proj/readme.md''"
  have a: "fst (getInstrumentedContent example_platform example_editor example_server ?p ?url) \<noteq> []"
    by code_simp
  have b: "readFile example_editor ?p = None" by code_simp
  have c: "documentKey example_platform ?p = ?p" by code_simp
  have d: "getContent example_platform example_editor ?p ?url
             = getInstrumentedContent example_platform example_editor example_server ?p ?url"
    by (rule getContent_reaches_resolver) (simp add: example_editor_def, code_simp, code_simp)
  note disk = C6_disk_error_soft_404 [where pf = example_platform and ed = example_editor
      and srv = example_server and p = ?p and url = ?url and now = 0 and og = ?og
      and pid = "Some ''loader-1''" and rid = "''r1''"]
  from disk a b c d have 1:
    "getInstrumentedContent example_platform example_editor example_server ?p ?url
       = ([?p], Resolved \<lparr>path = ?p, contents = None, headers = None\<rparr>)
     \<and> snd (livePreviewChannel_onmessage example_platform 0 example_editor
          (MessageEvent ?og \<lparr>pageLoaderID = Some ''loader-1'', payload = GET_CONTENT ?p ?url ''r1''\<rparr>))
       = [FsReadFile ?p, SendToLivePreviewServerTabs (Some ''loader-1'')
            (REQUEST_RESPONSE ''r1'' \<lparr>path = ?p, contents = None, headers = None\<rparr>)]"
    by simp
  have "staticServerInstance (example_editor\<lparr>staticServerInstance := None\<rparr>) = None" by simp
  with C6_disk_error_soft_404 [where pf = example_platform
      and ed = "example_editor\<lparr>staticServerInstance := None\<rparr>"
      and p = "''/proj/index.html''" and url = "example_baseUrl @ ''/proj/index.html''"]
  have 2: "getContent example_platform (example_editor\<lparr>staticServerInstance := None\<rparr>)
        ''/proj/index.html'' (example_baseUrl @ ''/proj/index.html'')
     = ([], Rejected (Reason ''Static serve not started!''))"
    by blast
  have srv: "staticServerInstance example_editor = Some example_server"
    by (simp add: example_editor_def)
  have gone: "staticServerInstance (example_editor\<lparr>currentFile := Some ''/proj/gone.md''\<rparr>)
        = Some example_server
      \<and> prefix (baseUrl example_server) (example_baseUrl @ ''/proj/gone.md'')
      \<and> isMarkdownFile example_platform ''/proj/gone.md''
      \<and> currentFile (example_editor\<lparr>currentFile := Some ''/proj/gone.md''\<rparr>) = Some ''/proj/gone.md''"
  proof (intro conjI)
    show "staticServerInstance (example_editor\<lparr>currentFile := Some ''/proj/gone.md''\<rparr>)
        = Some example_server" using srv by simp
    show "prefix (baseUrl example_server) (example_baseUrl @ ''/proj/gone.md'')" by code_simp
    show "isMarkdownFile example_platform ''/proj/gone.md''" by code_simp
    show "currentFile (example_editor\<lparr>currentFile := Some ''/proj/gone.md''\<rparr>) = Some ''/proj/gone.md''"
      by simp
  qed
  have goneDoc: "getDocumentForPath (example_editor\<lparr>currentFile := Some ''/proj/gone.md''\<rparr>)
        ''/proj/gone.md'' = DocumentFails ''NotFound''"
    by (simp add: example_editor_def)
  from C6_disk_error_soft_404 [where pf = example_platform
      and ed = "example_editor\<lparr>currentFile := Some ''/proj/gone.md''\<rparr>" and srv = example_server
      and p = "''/proj/gone.md''" and url = "example_baseUrl @ ''/proj/gone.md''"
      and err = "''NotFound''"] gone goneDoc
  have 3: "getContent example_platform (example_editor\<lparr>currentFile := Some ''/proj/gone.md''\<rparr>)
        ''/proj/gone.md'' (example_baseUrl @ ''/proj/gone.md'')
     = ([], Rejected (Reason ''Markdown rendering failed for /proj/gone.md: NotFound''))"
    by simp
  have md: "staticServerInstance example_editor = Some example_server
      \<and> prefix (baseUrl example_server) ?mdurl
      \<and> isMarkdownFile ?throwing ?md \<and> currentFile example_editor = Some ?md"
  proof (intro conjI)
    show "staticServerInstance example_editor = Some example_server" by (rule srv)
    show "prefix (baseUrl example_server) ?mdurl" by code_simp
    show "isMarkdownFile ?throwing ?md" by code_simp
    show "currentFile example_editor = Some ?md" by code_simp
  qed
  have sync: "getDocumentForPath example_editor ?md = DocumentDone True (Some ''# Hi'')
      \<and> Option.bind (Some ''# Hi'') (renderMarkdownPage ?throwing) = None"
    by (simp add: example_editor_def)
  from C6_disk_error_soft_404 [where pf = ?throwing and ed = example_editor
      and srv = example_server and p = ?md and url = ?mdurl and text' = "Some ''# Hi''"] md sync
  have 4: "getContent ?throwing example_editor ?md ?mdurl = ([], Rejected Thrown)"
    by blast
  have md': "staticServerInstance ?later = Some example_server
      \<and> prefix (baseUrl example_server) ?mdurl
      \<and> isMarkdownFile ?throwing ?md \<and> currentFile ?later = Some ?md"
  proof (intro conjI)
    show "staticServerInstance ?later = Some example_server" using srv by simp
    show "prefix (baseUrl example_server) ?mdurl" by code_simp
    show "isMarkdownFile ?throwing ?md" by code_simp
    show "currentFile ?later = Some ?md" by code_simp
  qed
  have async: "getDocumentForPath ?later ?md = DocumentDone False (Some ''# Hi'')
      \<and> Option.bind (Some ''# Hi'') (renderMarkdownPage ?throwing) = None"
    by simp
  from C6_disk_error_soft_404 [where pf = ?throwing and ed = ?later
      and srv = example_server and p = ?md and url = ?mdurl and text' = "Some ''# Hi''"] md' async
  have 5: "getContent ?throwing ?later ?md ?mdurl = ([], Pending)"
    by blast
  from 1 2 3 4 5 show ?thesis by (intro conjI) simp_all
qed

text \<open>
  Claim C9, as amended. A resolved response of \<open>_getInstrumentedContent\<close> carries
  \<open>Content-Type: text/html;charset=UTF-8\<close> exactly when its document key ends in
  \<open>.htm\<close>, \<open>.html\<close>, \<open>.xhtml\<close> or \<open>.php\<close> and its contents come from memory (overlay,
  live document or redirection page, open document); a response read from disk and a
  response with null contents carry no headers.
\<close>

theorem C9_html_header:
  "getInstrumentedContent pf ed srv p url = (reads, Resolved r) \<Longrightarrow>
   headers r =
     (if htmlFamily (documentKey pf p) \<and> reads = [] \<and> contents r \<noteq> None
      then Some [(''Content-Type'', ''text/html;charset=UTF-8'')] else None)"
  by (cases "virtualServingDocuments srv (documentKey pf p)")
     (auto simp add: getInstrumentedContent_def Let_def htmlHeaders_def
      split: option.splits liveDocument.splits if_splits)

text \<open>
  Claim C9 as stated fails at the disk tier: \<open>/proj/index.html\<close> is read from disk and
  the response has no headers.
\<close>

theorem C9_counterexample:
  "htmlFamily (documentKey example_platform ''/proj/index.html'')
   \<and> getContent example_platform example_editor ''/proj/index.html''
         (example_baseUrl @ ''/proj/index.html'')
       = ([''/proj/index.html''],
          Resolved \<lparr>path = ''/proj/index.html'', contents = Some (Bytes [60, 112, 62]),
                    headers = None\<rparr>)"
  by code_simp

theorem C9_html_header_witness:
  "headers \<lparr>path = ''/proj/virtual.html'', contents = Some (Text ''<p>virtual</p>''),
            headers = Some [(''Content-Type'', ''text/html;charset=UTF-8'')]\<rparr>
     = Some [(''Content-Type'', ''text/html;charset=UTF-8'')]
   \<and> getInstrumentedContent example_platform example_editor example_server ''/proj/virtual.html''
        (example_baseUrl @ ''/proj/virtual.html'')
     = ([], Resolved \<lparr>path = ''/proj/virtual.html'', contents = Some (Text ''<p>virtual</p>''),
            headers = Some [(''Content-Type'', ''text/html;charset=UTF-8'')]\<rparr>)"
proof -
  have a: "getInstrumentedContent example_platform example_editor example_server ''/proj/virtual.html''
        (example_baseUrl @ ''/proj/virtual.html'')
     = ([], Resolved \<lparr>path = ''/proj/virtual.html'', contents = Some (Text ''<p>virtual</p>''),
            headers = Some [(''Content-Type'', ''text/html;charset=UTF-8'')]\<rparr>)"
    by code_simp
  from C9_html_header [OF a] a show ?thesis by simp
qed

section \<open>Properties of the origin check\<close>

text \<open>An origin's string is never the name of an inherited property.\<close>

lemma origin_string_not_prototype:
  "origin_string og \<notin> set Object_prototype_properties"
proof -
  have colon: "CHR '':'' \<in> set (origin_string og) \<or> origin_string og = ''null''"
    by (cases og rule: origin_string.cases) auto
  have "\<forall>k \<in> set Object_prototype_properties. CHR '':'' \<notin> set k \<and> k \<noteq> ''null''"
    by (simp add: Object_prototype_properties_def)
  with colon show ?thesis by auto
qed

text \<open>
  Claim C2, as amended. Of the handlers of the loader and of the editor, one consults
  the origin allowlist: the loader's listener for \<open>message\<close> events of the window,
  where the messages of the frames arrive. There a message whose origin is not in
  \<open>TRUSTED_ORIGINS\<close> is posted nowhere, so the editor's state stays as it is, no
  response is sent and no file is read; a message whose origin is in the list is posted
  on the relay channel under the loader's ID; the loader's trust state is not consulted.
  The four handlers of the broadcast channels (relay and navigation, in the editor and in
  the loader) do not look at the origin of an event.
\<close>

theorem C2_window_listener_allowlist:
  "(origin_string (origin event) \<notin> set TRUSTED_ORIGINS
    \<longrightarrow> window_onmessage pid event = []
        \<and> frameMessageToEditor pf now pageOrigin pid ed event = (ed, []))
   \<and> (origin_string (origin event) \<in> set TRUSTED_ORIGINS
    \<longrightarrow> window_onmessage pid event = [\<lparr>pageLoaderID = Some pid, payload = data event\<rparr>])
   \<and> livePreviewChannel_onmessage pf now ed (MessageEvent og m)
       = livePreviewChannel_onmessage pf now ed (MessageEvent og' m)
   \<and> editor_navigatorChannel_onmessage now ed (MessageEvent og n)
       = editor_navigatorChannel_onmessage now ed (MessageEvent og' n)
   \<and> loader_navigatorChannel_onmessage br pid st (MessageEvent og n)
       = loader_navigatorChannel_onmessage br pid st (MessageEvent og' n)
   \<and> loader_livePreviewChannel_onmessage pid (MessageEvent og r)
       = loader_livePreviewChannel_onmessage pid (MessageEvent og' r)"
proof (intro conjI)
  show "origin_string (origin event) \<notin> set TRUSTED_ORIGINS
    \<longrightarrow> window_onmessage pid event = []
        \<and> frameMessageToEditor pf now pageOrigin pid ed event = (ed, [])"
    by (simp add: window_onmessage_def frameMessageToEditor_def TRUSTED_ORIGINS_lookup_def
        origin_string_not_prototype)
next
  show "origin_string (origin event) \<in> set TRUSTED_ORIGINS
    \<longrightarrow> window_onmessage pid event = [\<lparr>pageLoaderID = Some pid, payload = data event\<rparr>]"
    by (simp add: window_onmessage_def TRUSTED_ORIGINS_lookup_def)
next
  show "livePreviewChannel_onmessage pf now ed (MessageEvent og m)
       = livePreviewChannel_onmessage pf now ed (MessageEvent og' m)"
    by (cases "payload m") (simp_all add: livePreviewChannel_onmessage_def)
next
  show "editor_navigatorChannel_onmessage now ed (MessageEvent og n)
       = editor_navigatorChannel_onmessage now ed (MessageEvent og' n)"
    by (simp add: editor_navigatorChannel_onmessage_def)
next
  show "loader_navigatorChannel_onmessage br pid st (MessageEvent og n)
       = loader_navigatorChannel_onmessage br pid st (MessageEvent og' n)"
    by (simp add: loader_navigatorChannel_onmessage_def)
next
  show "loader_livePreviewChannel_onmessage pid (MessageEvent og r)
       = loader_livePreviewChannel_onmessage pid (MessageEvent og' r)"
    by (simp add: loader_livePreviewChannel_onmessage_def)
qed

text \<open>
  Claim C2 as stated fails on the relay channel: an editor served from
  \<open>http://localhost:3000\<close>, which is not in the list, receives the events of its
  channels with that origin, and its handler answers the \<open>GET_CONTENT\<close> of such an
  event with the file read from disk.
\<close>

theorem C2_counterexample:
  "origin_string (TupleOrigin ''http'' ''localhost'' (Some ''3000'')) \<notin> set TRUSTED_ORIGINS
   \<and> snd (livePreviewChannel_onmessage example_platform 0 example_editor
        (MessageEvent (TupleOrigin ''http'' ''localhost'' (Some ''3000''))
           \<lparr>pageLoaderID = Some ''loader-1'',
            payload = GET_CONTENT ''/proj/index.html'' (example_baseUrl @ ''/proj/index.html'') ''r1''\<rparr>))
     = [FsReadFile ''/proj/index.html'',
        SendToLivePreviewServerTabs (Some ''loader-1'')
          (REQUEST_RESPONSE ''r1''
             \<lparr>path = ''/proj/index.html'', contents = Some (Bytes [60, 112, 62]), headers = None\<rparr>)]"
  by code_simp

theorem C2_window_listener_allowlist_witness:
  "origin_string (TupleOrigin ''https'' ''evil.example'' None) \<notin> set TRUSTED_ORIGINS
   \<and> window_onmessage ''loader-1''
        (MessageEvent (TupleOrigin ''https'' ''evil.example'' None)
           (GET_CONTENT ''/proj/index.html'' (example_baseUrl @ ''/proj/index.html'') ''r1'')) = []
   \<and> frameMessageToEditor example_platform 0 (TupleOrigin ''https'' ''phcode.dev'' None) ''loader-1''
        example_editor
        (MessageEvent (TupleOrigin ''https'' ''evil.example'' None)
           (GET_CONTENT ''/proj/index.html'' (example_baseUrl @ ''/proj/index.html'') ''r1''))
     = (example_editor, [])
   \<and> origin_string (TupleOrigin ''https'' ''phcode.live'' None) \<in> set TRUSTED_ORIGINS
   \<and> window_onmessage ''loader-1''
        (MessageEvent (TupleOrigin ''https'' ''phcode.live'' None) (TAB_ONLINE ''tab-1'' None))
     = [\<lparr>pageLoaderID = Some ''loader-1'', payload = TAB_ONLINE ''tab-1'' None\<rparr>]"
proof -
  let ?evil = "MessageEvent (TupleOrigin ''https'' ''evil.example'' None)
           (GET_CONTENT ''/proj/index.html'' (example_baseUrl @ ''/proj/index.html'') ''r1'')"
  let ?good = "MessageEvent (TupleOrigin ''https'' ''phcode.live'' None) (TAB_ONLINE ''tab-1'' None)"
  have a: "origin_string (origin ?evil) \<notin> set TRUSTED_ORIGINS"
    by code_simp
  have b: "origin_string (origin ?good) \<in> set TRUSTED_ORIGINS"
    by code_simp
  note evil = C2_window_listener_allowlist [where event = ?evil and pid = "''loader-1''"
      and pf = example_platform and now = 0 and pageOrigin = "TupleOrigin ''https'' ''phcode.dev'' None"
      and ed = example_editor, THEN conjunct1]
  note good = C2_window_listener_allowlist [where event = ?good and pid = "''loader-1''",
      THEN conjunct2, THEN conjunct1]
  from a evil
  have c: "window_onmessage ''loader-1'' ?evil = []
     \<and> frameMessageToEditor example_platform 0 (TupleOrigin ''https'' ''phcode.dev'' None)
         ''loader-1'' example_editor ?evil = (example_editor, [])"
    by (rule rev_mp)
  from b good
  have d: "window_onmessage ''loader-1'' ?good
     = [\<lparr>pageLoaderID = Some ''loader-1'', payload = TAB_ONLINE ''tab-1'' None\<rparr>]"
    by simp
  from a b c d show ?thesis by simp
qed

section \<open>Properties of the tab registry\<close>











section \<open>Properties of the trust gate\<close>

subsection \<open>The array of trusted projects\<close>

lemma arrayTruthy_set_same: "arrayTruthy (arraySetTrue a k) k"
  by (auto simp add: arrayTruthy_def arraySetTrue_def Object_prototype_properties_def
      split: option.splits)

lemma ordinaryKey_not_proto: "ordinaryKey r \<Longrightarrow> r \<noteq> ''__proto__''"
  by (auto simp add: ordinaryKey_def Object_prototype_properties_def)

lemma arrayTruthy_set_ordinary:
  assumes "ordinaryKey r"
  shows "arrayTruthy (arraySetTrue a k) r \<longleftrightarrow> r = k \<or> arrayTruthy a r"
proof -
  from assms have "r \<noteq> ''__proto__''" by (rule ordinaryKey_not_proto)
  with assms show ?thesis
    by (auto simp add: arrayTruthy_def arraySetTrue_def ordinaryKey_def split: option.splits)
qed

lemma arrayTruthy_empty_ordinary: "ordinaryKey r \<Longrightarrow> \<not> arrayTruthy emptyArray r"
  by (simp add: arrayTruthy_def ordinaryKey_def emptyArray_def)

lemma path_ordinaryKey: "prefix ''/'' k \<Longrightarrow> ordinaryKey k"
proof -
  assume "prefix ''/'' k"
  then obtain cs where k: "k = CHR ''/'' # cs" by (auto simp add: prefix_def)
  have "arrayIndex k = None" by (simp add: k arrayIndex_def)
  moreover have "k \<noteq> ''length''" by (simp add: k)
  moreover have "k \<notin> set Array_prototype_properties"
    by (simp add: k Array_prototype_properties_def)
  moreover have "k \<notin> set Object_prototype_properties"
    by (simp add: k Object_prototype_properties_def)
  ultimately show ?thesis by (simp add: ordinaryKey_def)
qed

subsection \<open>One life of the page\<close>

lemmas loader_defs =
  loader_navigatorChannel_onmessage_def securityOk_def setPreviewFrameSrc_def Let_def

lemma loaderInv_initial: "loaderInv (initialLoader root storage)"
  by (simp add: loaderInv_def initialLoader_def)

lemma loaderInv_securityOk: "loaderInv st \<Longrightarrow> loaderInv (snd (securityOk br st))"
  by (auto simp add: loaderInv_def isTrusted_def loader_defs arrayTruthy_set_same
      split: option.splits)

lemma loaderInv_message:
  "loaderInv st \<Longrightarrow> loaderInv (snd (loader_navigatorChannel_onmessage br pid st event))"
  by (cases "data event")
     (auto simp add: loaderInv_def isTrusted_def loader_defs split: option.splits)

lemma loaderInv_step: "loaderInv st \<Longrightarrow> loaderInv (loaderStep br pid st ev)"
  by (cases ev) (simp_all add: loaderInv_securityOk loaderInv_message)

lemma loaderInv_setup: "loaderInv (setupNavigationWatcher br root storage)"
  by (simp add: setupNavigationWatcher_def Let_def loaderInv_initial loaderInv_securityOk)

lemma loaderInv_foldl: "loaderInv st \<Longrightarrow> loaderInv (foldl (loaderStep br pid) st evs)"
  by (induction evs arbitrary: st) (simp_all add: loaderInv_step)

lemma loaderInv_run:
  "loaderInv (loaderRun br pid (setupNavigationWatcher br root storage) evs)"
  by (simp add: loaderRun_def loaderInv_foldl loaderInv_setup)

lemma trusted_message:
  "trustedProjects (snd (loader_navigatorChannel_onmessage br pid st event)) = trustedProjects st"
  by (cases "data event") (auto simp add: loader_defs split: option.splits)

lemma trusted_securityOk:
  "trustedProjects (snd (securityOk br st)) =
     (if decodeURIComponent br (jsString (previewURL st)) = None then trustedProjects st
      else arraySetTrue (trustedProjects st) (currentProjectRoot st))"
  by (auto simp add: loader_defs split: option.splits)

lemma isTrusted_step:
  "ordinaryKey r \<Longrightarrow>
   isTrusted (loaderStep br pid st ev) r \<longleftrightarrow>
     isTrusted st r
     \<or> (ev = OkButtonClick \<and> r = currentProjectRoot st
        \<and> decodeURIComponent br (jsString (previewURL st)) \<noteq> None)"
  by (cases ev)
     (auto simp add: isTrusted_def trusted_message trusted_securityOk arrayTruthy_set_ordinary)

lemma isTrusted_foldl_mono:
  "ordinaryKey r \<Longrightarrow> isTrusted st r \<Longrightarrow> isTrusted (foldl (loaderStep br pid) st evs) r"
  by (induction evs arbitrary: st) (simp_all add: isTrusted_step)

lemma unacknowledged_message_keeps_frame:
  "\<not> securityAlertAcknowledged st \<Longrightarrow>
   m = INITIAL_URL_NAVIGATE url pid' \<or> m = REDIRECT_PAGE url force \<Longrightarrow>
   previewFrame_src (snd (loader_navigatorChannel_onmessage br pid st (MessageEvent og m)))
     = previewFrame_src st
   \<and> previewFrame_loads (snd (loader_navigatorChannel_onmessage br pid st (MessageEvent og m)))
     = previewFrame_loads st
   \<and> \<not> securityAlertAcknowledged (snd (loader_navigatorChannel_onmessage br pid st (MessageEvent og m)))
   \<and> previewURL (snd (loader_navigatorChannel_onmessage br pid st (MessageEvent og m))) = url"
  by (auto simp add: loader_defs)

text \<open>
  Within one life of the page the acknowledged flag gates the frame: in every state
  reached from the set-up by messages of the navigation channel and clicks on OK, the flag
  is set only while \<open>trustedProjects\<close> is truthy at the page's current project root, and
  while the flag is not set the frame shows \<open>about:blank\<close> and an
  \<open>INITIAL_URL_NAVIGATE\<close> or a \<open>REDIRECT_PAGE\<close> leaves it there and navigates nothing.
\<close>

lemma acknowledged_flag_gates_frame:
  assumes "st = loaderRun br pid (setupNavigationWatcher br root storage) evs"
  shows "(securityAlertAcknowledged st \<longrightarrow> isTrusted st (currentProjectRoot st))
     \<and> (\<not> securityAlertAcknowledged st
        \<longrightarrow> previewFrame_src st = ''about:blank''
          \<and> previewFrame_src (snd (loader_navigatorChannel_onmessage br pid st
               (MessageEvent og (INITIAL_URL_NAVIGATE url pid')))) = ''about:blank''
          \<and> previewFrame_loads (snd (loader_navigatorChannel_onmessage br pid st
               (MessageEvent og (INITIAL_URL_NAVIGATE url pid')))) = previewFrame_loads st
          \<and> previewFrame_src (snd (loader_navigatorChannel_onmessage br pid st
               (MessageEvent og (REDIRECT_PAGE url force)))) = ''about:blank''
          \<and> previewFrame_loads (snd (loader_navigatorChannel_onmessage br pid st
               (MessageEvent og (REDIRECT_PAGE url force)))) = previewFrame_loads st)"
proof -
  from assms have inv: "loaderInv st" by (simp add: loaderInv_run)
  show ?thesis
  proof (intro conjI impI)
    assume "securityAlertAcknowledged st"
    with inv show "isTrusted st (currentProjectRoot st)" by (simp add: loaderInv_def)
  next
    assume unack: "\<not> securityAlertAcknowledged st"
    with inv show blank: "previewFrame_src st = ''about:blank''" by (simp add: loaderInv_def)
    from blank
      unacknowledged_message_keeps_frame [OF unack, of "INITIAL_URL_NAVIGATE url pid'" url pid' force br pid og]
    show "previewFrame_src (snd (loader_navigatorChannel_onmessage br pid st
               (MessageEvent og (INITIAL_URL_NAVIGATE url pid')))) = ''about:blank''"
      and "previewFrame_loads (snd (loader_navigatorChannel_onmessage br pid st
               (MessageEvent og (INITIAL_URL_NAVIGATE url pid')))) = previewFrame_loads st"
      by simp_all
    from blank
      unacknowledged_message_keeps_frame [OF unack, of "REDIRECT_PAGE url force" url pid' force br pid og]
    show "previewFrame_src (snd (loader_navigatorChannel_onmessage br pid st
               (MessageEvent og (REDIRECT_PAGE url force)))) = ''about:blank''"
      and "previewFrame_loads (snd (loader_navigatorChannel_onmessage br pid st
               (MessageEvent og (REDIRECT_PAGE url force)))) = previewFrame_loads st"
      by simp_all
  qed
qed

theorem acknowledged_flag_gates_frame_witness:
  "\<not> securityAlertAcknowledged example_before_reload
   \<and> previewFrame_src example_before_reload = ''about:blank''
   \<and> previewFrame_src (snd (loader_navigatorChannel_onmessage example_browser ''loader-1''
        example_before_reload
        (MessageEvent example_origin (REDIRECT_PAGE (Some example_otherURL) True))))
       = ''about:blank''
   \<and> securityAlertAcknowledged example_trusted_loader
   \<and> isTrusted example_trusted_loader (currentProjectRoot example_trusted_loader)"
proof -
  let ?evs = "[NavigatorMessage (MessageEvent example_origin (REDIRECT_PAGE (Some example_previewURL) False)),
        OkButtonClick]"
  let ?evs' = "[NavigatorMessage (MessageEvent example_origin (PROJECT_SWITCH ''/other/'')),
        NavigatorMessage (MessageEvent example_origin (REDIRECT_PAGE (Some example_otherURL) False))]"
  have t: "example_trusted_loader = loaderRun example_browser ''loader-1''
      (setupNavigationWatcher example_browser ''/proj/'' Map.empty) ?evs"
    by (simp add: example_trusted_loader_def example_loader_def)
  have b: "example_before_reload = loaderRun example_browser ''loader-1''
      (setupNavigationWatcher example_browser ''/proj/'' Map.empty) (?evs @ ?evs')"
    by (simp add: example_before_reload_def example_trusted_loader_def example_loader_def
        loaderRun_def)
  have unack: "\<not> securityAlertAcknowledged example_before_reload" by code_simp
  have ack: "securityAlertAcknowledged example_trusted_loader" by code_simp
  from acknowledged_flag_gates_frame [OF b, where url = "Some example_otherURL" and force = True
      and og = example_origin] unack
  have 1: "previewFrame_src example_before_reload = ''about:blank''
     \<and> previewFrame_src (snd (loader_navigatorChannel_onmessage example_browser ''loader-1''
          example_before_reload
          (MessageEvent example_origin (REDIRECT_PAGE (Some example_otherURL) True))))
         = ''about:blank''"
    by simp
  from acknowledged_flag_gates_frame [OF t] ack
  have 2: "isTrusted example_trusted_loader (currentProjectRoot example_trusted_loader)"
    by simp
  from unack ack 1 2 show ?thesis by simp
qed

text \<open>
  Within one life of the page the table of trusted projects only grows, for every root
  that is an ordinary key (every path is): no root is trusted in the page as it starts;
  the set-up restores the trust of the initial root from an acknowledgement kept in the
  session storage; a step makes a root trusted exactly when it is a click on OK for the
  current root that completes; a trusted root stays trusted; \<open>PROJECT_SWITCH\<close> changes
  the trust of no root.
\<close>

lemma trust_in_one_page_life:
  "(ordinaryKey r
    \<longrightarrow> \<not> isTrusted (initialLoader root storage) r
        \<and> (isTrusted (loaderStep br pid st ev) r \<longleftrightarrow>
             isTrusted st r
             \<or> (ev = OkButtonClick \<and> r = currentProjectRoot st
                \<and> decodeURIComponent br (jsString (previewURL st)) \<noteq> None))
        \<and> (isTrusted st r \<longrightarrow> isTrusted (loaderRun br pid st evs) r))
   \<and> (truthy (storage (SESSION_SECURITY_CLEAR_KEY @ root))
        \<and> decodeURIComponent br ''undefined'' \<noteq> None
      \<longrightarrow> isTrusted (setupNavigationWatcher br root storage) root
          \<and> securityAlertAcknowledged (setupNavigationWatcher br root storage))
   \<and> (\<not> truthy (storage (SESSION_SECURITY_CLEAR_KEY @ root))
      \<longrightarrow> setupNavigationWatcher br root storage = initialLoader root storage)
   \<and> isTrusted (snd (loader_navigatorChannel_onmessage br pid st
        (MessageEvent og (PROJECT_SWITCH newRoot)))) k = isTrusted st k"
proof (intro conjI impI)
  assume r: "ordinaryKey r"
  then show "\<not> isTrusted (initialLoader root storage) r"
    by (simp add: isTrusted_def initialLoader_def arrayTruthy_empty_ordinary)
  from r show "isTrusted (loaderStep br pid st ev) r \<longleftrightarrow>
             isTrusted st r
             \<or> (ev = OkButtonClick \<and> r = currentProjectRoot st
                \<and> decodeURIComponent br (jsString (previewURL st)) \<noteq> None)"
    by (rule isTrusted_step)
  assume "isTrusted st r"
  with r show "isTrusted (loaderRun br pid st evs) r"
    by (simp add: loaderRun_def isTrusted_foldl_mono)
next
  assume a: "truthy (storage (SESSION_SECURITY_CLEAR_KEY @ root))
        \<and> decodeURIComponent br ''undefined'' \<noteq> None"
  then show "isTrusted (setupNavigationWatcher br root storage) root"
    by (auto simp add: setupNavigationWatcher_def initialLoader_def isTrusted_def loader_defs
        arrayTruthy_set_same)
  from a show "securityAlertAcknowledged (setupNavigationWatcher br root storage)"
    by (auto simp add: setupNavigationWatcher_def initialLoader_def loader_defs)
next
  assume "\<not> truthy (storage (SESSION_SECURITY_CLEAR_KEY @ root))"
  then show "setupNavigationWatcher br root storage = initialLoader root storage"
    by (simp add: setupNavigationWatcher_def initialLoader_def Let_def)
next
  show "isTrusted (snd (loader_navigatorChannel_onmessage br pid st
        (MessageEvent og (PROJECT_SWITCH newRoot)))) k = isTrusted st k"
    by (simp add: isTrusted_def trusted_message)
qed

theorem trust_in_one_page_life_witness:
  "ordinaryKey ''/proj/'' \<and> ordinaryKey ''/other/''
   \<and> \<not> isTrusted example_loader ''/proj/''
   \<and> isTrusted (loaderStep example_browser ''loader-1'' example_loader OkButtonClick) ''/proj/''
   \<and> \<not> isTrusted (loaderStep example_browser ''loader-1'' example_loader OkButtonClick) ''/other/''
   \<and> isTrusted example_before_reload ''/proj/''
   \<and> isTrusted example_after_reload ''/proj/''
   \<and> securityAlertAcknowledged example_after_reload"
proof -
  have o1: "ordinaryKey ''/proj/''" by (rule path_ordinaryKey) simp
  have o2: "ordinaryKey ''/other/''" by (rule path_ordinaryKey) simp
  have fresh: "\<not> truthy (Map.empty (SESSION_SECURITY_CLEAR_KEY @ ''/proj/''))" by simp
  have b: "currentProjectRoot example_loader = ''/proj/''" by code_simp
  have c: "decodeURIComponent example_browser (jsString (previewURL example_loader)) \<noteq> None"
    by code_simp
  have d: "isTrusted example_trusted_loader ''/proj/''" by code_simp
  have stored: "truthy (sessionStorage example_before_reload (SESSION_SECURITY_CLEAR_KEY @ ''/proj/''))
      \<and> decodeURIComponent example_browser ''undefined'' \<noteq> None"
    by code_simp
  note proj = trust_in_one_page_life [where r = "''/proj/''" and br = example_browser
      and pid = "''loader-1''" and root = "''/proj/''" and storage = Map.empty
      and st = example_loader and ev = OkButtonClick, THEN conjunct1, THEN mp, OF o1]
  note other = trust_in_one_page_life [where r = "''/other/''" and br = example_browser
      and pid = "''loader-1''" and root = "''/proj/''" and storage = Map.empty
      and st = example_loader and ev = OkButtonClick, THEN conjunct1, THEN mp, OF o2]
  note fresh_setup = trust_in_one_page_life [where br = example_browser and root = "''/proj/''"
      and storage = Map.empty, THEN conjunct2, THEN conjunct2, THEN conjunct1, THEN mp, OF fresh]
  note mono = trust_in_one_page_life [where r = "''/proj/''" and br = example_browser
      and pid = "''loader-1''" and st = example_trusted_loader
      and evs = "[NavigatorMessage (MessageEvent example_origin (PROJECT_SWITCH ''/other/'')),
        NavigatorMessage (MessageEvent example_origin (REDIRECT_PAGE (Some example_otherURL) False))]",
      THEN conjunct1, THEN mp, OF o1, THEN conjunct2, THEN conjunct2]
  note restore = trust_in_one_page_life [where br = example_browser and root = "''/proj/''"
      and storage = "sessionStorage example_before_reload",
      THEN conjunct2, THEN conjunct1, THEN mp, OF stored]
  from proj fresh_setup have 1: "\<not> isTrusted example_loader ''/proj/''"
    by (simp add: example_loader_def)
  from other fresh_setup have 10: "\<not> isTrusted example_loader ''/other/''"
    by (simp add: example_loader_def)
  from proj b c
  have 2: "isTrusted (loaderStep example_browser ''loader-1'' example_loader OkButtonClick) ''/proj/''"
    by simp
  from other 10 b
  have 3: "\<not> isTrusted (loaderStep example_browser ''loader-1'' example_loader OkButtonClick) ''/other/''"
    by simp
  from mono d have 4: "isTrusted example_before_reload ''/proj/''"
    by (simp add: example_before_reload_def)
  from restore have 5: "isTrusted example_after_reload ''/proj/''
      \<and> securityAlertAcknowledged example_after_reload"
    by (simp add: example_after_reload_def reloadPage_def)
  from o1 o2 1 2 3 4 5 show ?thesis by simp
qed

subsection \<open>The tab loaded again\<close>

text \<open>
  Claim C3 (while the current project root is unacknowledged the frame never loads the
  real preview URL; only after the trust action is it loaded). The code at a history it
  can meet: the loader is opened for \<open>/proj/\<close> and the user trusts it; the editor
  switches to the project \<open>/other/\<close> and the loader goes to \<open>about:blank\<close> and asks for
  trust; the user loads the tab again. The set-up reads \<open>/proj/\<close> from the query string,
  finds its acknowledgement in the session storage and sets the acknowledged flag; the
  editor answers the loader's \<open>GET_INITIAL_URL\<close> with its current URL, a file of
  \<open>/other/\<close>; the frame loads it, although nobody has acknowledged \<open>/other/\<close>.
\<close>

theorem C3_reload_loads_unacknowledged:
  "\<not> isTrusted example_before_reload ''/other/''
   \<and> currentProjectRoot example_before_reload = ''/other/''
   \<and> previewFrame_src example_before_reload = ''about:blank''
   \<and> sessionStorage example_after_reload (SESSION_SECURITY_CLEAR_KEY @ ''/other/'') = None
   \<and> \<not> isTrusted example_after_reload ''/other/''
   \<and> snd (editor_navigatorChannel_onmessage 0
        (example_editor\<lparr>currentPopoutURL := Some example_otherURL\<rparr>)
        (MessageEvent example_origin (GET_INITIAL_URL ''loader-2'')))
       = [INITIAL_URL_NAVIGATE (Some example_otherURL) ''loader-2'']
   \<and> previewFrame_src (snd (loader_navigatorChannel_onmessage example_browser ''loader-2''
        example_after_reload
        (MessageEvent example_origin (INITIAL_URL_NAVIGATE (Some example_otherURL) ''loader-2''))))
       = example_otherURL
   \<and> \<not> isTrusted (snd (loader_navigatorChannel_onmessage example_browser ''loader-2''
        example_after_reload
        (MessageEvent example_origin (INITIAL_URL_NAVIGATE (Some example_otherURL) ''loader-2''))))
        ''/other/''"
  by code_simp

theorem C3_reload_loads_unacknowledged_witness:
  "\<not> isTrusted example_after_reload ''/other/''
   \<and> previewFrame_src (snd (loader_navigatorChannel_onmessage example_browser ''loader-2''
        example_after_reload
        (MessageEvent example_origin (INITIAL_URL_NAVIGATE (Some example_otherURL) ''loader-2''))))
       = example_otherURL"
  using C3_reload_loads_unacknowledged by simp

text \<open>
  Claim C8 (trust is keyed per root, false before the trust action and true after it, and
  within a session a trusted root never becomes unacknowledged again). The code at a
  history it can meet: the user trusts \<open>/proj/\<close> and, after a switch, \<open>/other/\<close>; both
  acknowledgements are written to the session storage; the user loads the tab again. The
  set-up restores \<open>/proj/\<close>, the root of the query string, and nothing else:
  \<open>PROJECT_SWITCH\<close> looks at \<open>trustedProjects\<close> only, so at the next switch to
  \<open>/other/\<close> the root is unacknowledged again, the frame goes to \<open>about:blank\<close> and the
  dialog is shown, with the acknowledgement of \<open>/other/\<close> still in the session storage.
  And a click on OK while the preview URL holds a percent sign that starts no escape
  (\<open>100%.html\<close>) ends in the \<open>URIError\<close> of \<open>decodeURIComponent\<close>: the dialog is
  hidden and the root is not trusted.
\<close>

theorem C8_trust_lost_on_reload:
  "isTrusted example_two_trusted ''/proj/'' \<and> isTrusted example_two_trusted ''/other/''
   \<and> sessionStorage (reloadPage example_browser ''/proj/'' example_two_trusted)
        (SESSION_SECURITY_CLEAR_KEY @ ''/other/'') = Some ''true''
   \<and> isTrusted (reloadPage example_browser ''/proj/'' example_two_trusted) ''/proj/''
   \<and> \<not> isTrusted (reloadPage example_browser ''/proj/'' example_two_trusted) ''/other/''
   \<and> \<not> securityAlertAcknowledged (snd (loader_navigatorChannel_onmessage example_browser
        ''loader-2'' (reloadPage example_browser ''/proj/'' example_two_trusted)
        (MessageEvent example_origin (PROJECT_SWITCH ''/other/''))))
   \<and> dialog_display (snd (loader_navigatorChannel_onmessage example_browser
        ''loader-2'' (reloadPage example_browser ''/proj/'' example_two_trusted)
        (MessageEvent example_origin (PROJECT_SWITCH ''/other/'')))) = ''flex''
   \<and> previewFrame_src (snd (loader_navigatorChannel_onmessage example_browser
        ''loader-2'' (reloadPage example_browser ''/proj/'' example_two_trusted)
        (MessageEvent example_origin (PROJECT_SWITCH ''/other/'')))) = ''about:blank''
   \<and> securityOk example_browser
        (example_loader\<lparr>previewURL := Some (example_baseUrl @ ''/proj/100%.html'')\<rparr>)
       = (Threw ''URIError'',
          example_loader\<lparr>previewURL := Some (example_baseUrl @ ''/proj/100%.html''),
                           dialog_display := ''none''\<rparr>)
   \<and> \<not> isTrusted (snd (securityOk example_browser
        (example_loader\<lparr>previewURL := Some (example_baseUrl @ ''/proj/100%.html'')\<rparr>))) ''/proj/''"
proof -
  let ?st = "example_loader\<lparr>previewURL := Some (example_baseUrl @ ''/proj/100%.html'')\<rparr>"
  have reload: "isTrusted example_two_trusted ''/proj/'' \<and> isTrusted example_two_trusted ''/other/''
   \<and> sessionStorage (reloadPage example_browser ''/proj/'' example_two_trusted)
        (SESSION_SECURITY_CLEAR_KEY @ ''/other/'') = Some ''true''
   \<and> isTrusted (reloadPage example_browser ''/proj/'' example_two_trusted) ''/proj/''
   \<and> \<not> isTrusted (reloadPage example_browser ''/proj/'' example_two_trusted) ''/other/''
   \<and> \<not> securityAlertAcknowledged (snd (loader_navigatorChannel_onmessage example_browser
        ''loader-2'' (reloadPage example_browser ''/proj/'' example_two_trusted)
        (MessageEvent example_origin (PROJECT_SWITCH ''/other/''))))
   \<and> dialog_display (snd (loader_navigatorChannel_onmessage example_browser
        ''loader-2'' (reloadPage example_browser ''/proj/'' example_two_trusted)
        (MessageEvent example_origin (PROJECT_SWITCH ''/other/'')))) = ''flex''
   \<and> previewFrame_src (snd (loader_navigatorChannel_onmessage example_browser
        ''loader-2'' (reloadPage example_browser ''/proj/'' example_two_trusted)
        (MessageEvent example_origin (PROJECT_SWITCH ''/other/'')))) = ''about:blank''"
    by code_simp
  have dec: "decodeURIComponent example_browser (jsString (previewURL ?st)) = None"
    by code_simp
  then have throws: "securityOk example_browser ?st
       = (Threw ''URIError'', ?st\<lparr>dialog_display := ''none''\<rparr>)"
    by (simp add: securityOk_def Let_def)
  have "\<not> isTrusted (?st\<lparr>dialog_display := ''none''\<rparr>) ''/proj/''" by code_simp
  with throws have untrusted: "\<not> isTrusted (snd (securityOk example_browser ?st)) ''/proj/''"
    by simp
  from reload throws untrusted show ?thesis by simp
qed

theorem C8_trust_lost_on_reload_witness:
  "isTrusted example_two_trusted ''/other/''
   \<and> \<not> isTrusted (reloadPage example_browser ''/proj/'' example_two_trusted) ''/other/''"
  using C8_trust_lost_on_reload by simp

text \<open>
  Claim C10. For a \<open>REDIRECT_PAGE\<close> received by a loader whose acknowledged flag is
  set: if \<open>force\<close> is falsy and the URL equals what \<open>previewFrame.src\<close> reads, the frame
  is left as it is and is not navigated; if \<open>force\<close> is truthy or the URL differs, the
  frame's \<open>src\<close> is set to the URL.
\<close>

theorem C10_redirect_page:
  assumes "securityAlertAcknowledged st"
  shows "(\<not> force \<and> Some (srcOf br (previewFrame_src st)) = url
      \<longrightarrow> loader_navigatorChannel_onmessage br pid st (MessageEvent og (REDIRECT_PAGE url force))
            = (Completed, st\<lparr>previewURL := url\<rparr>)
          \<and> previewFrame_src (snd (loader_navigatorChannel_onmessage br pid st
               (MessageEvent og (REDIRECT_PAGE url force)))) = previewFrame_src st
          \<and> previewFrame_loads (snd (loader_navigatorChannel_onmessage br pid st
               (MessageEvent og (REDIRECT_PAGE url force)))) = previewFrame_loads st)
   \<and> (force \<or> Some (srcOf br (previewFrame_src st)) \<noteq> url
      \<longrightarrow> previewFrame_src (snd (loader_navigatorChannel_onmessage br pid st
               (MessageEvent og (REDIRECT_PAGE url force)))) = jsString url
          \<and> previewFrame_loads (snd (loader_navigatorChannel_onmessage br pid st
               (MessageEvent og (REDIRECT_PAGE url force)))) = previewFrame_loads st @ [jsString url]
          \<and> previewURL (snd (loader_navigatorChannel_onmessage br pid st
               (MessageEvent og (REDIRECT_PAGE url force)))) = url)"
  using assms by (auto simp add: loader_defs)

theorem C10_redirect_page_witness:
  "securityAlertAcknowledged example_trusted_loader
   \<and> Some (srcOf example_browser (previewFrame_src example_trusted_loader)) = Some example_previewURL
   \<and> previewFrame_loads (snd (loader_navigatorChannel_onmessage example_browser ''loader-1''
        example_trusted_loader
        (MessageEvent example_origin (REDIRECT_PAGE (Some example_previewURL) False))))
       = previewFrame_loads example_trusted_loader
   \<and> previewFrame_loads (snd (loader_navigatorChannel_onmessage example_browser ''loader-1''
        example_trusted_loader
        (MessageEvent example_origin (REDIRECT_PAGE (Some example_previewURL) True))))
       = previewFrame_loads example_trusted_loader @ [example_previewURL]
   \<and> previewFrame_src (snd (loader_navigatorChannel_onmessage example_browser ''loader-1''
        example_trusted_loader
        (MessageEvent example_origin (REDIRECT_PAGE (Some (example_baseUrl @ ''/proj/new.html'')) False))))
       = example_baseUrl @ ''/proj/new.html''"
proof -
  have ack: "securityAlertAcknowledged example_trusted_loader" by code_simp
  have same: "Some (srcOf example_browser (previewFrame_src example_trusted_loader))
                = Some example_previewURL" by code_simp
  have other: "Some (srcOf example_browser (previewFrame_src example_trusted_loader))
                \<noteq> Some (example_baseUrl @ ''/proj/new.html'')" by code_simp
  note th = C10_redirect_page [OF ack, where br = example_browser and pid = "''loader-1''"
      and og = example_origin]
  from th [where url = "Some example_previewURL" and force = False] same
  have 1: "previewFrame_loads (snd (loader_navigatorChannel_onmessage example_browser ''loader-1''
        example_trusted_loader
        (MessageEvent example_origin (REDIRECT_PAGE (Some example_previewURL) False))))
       = previewFrame_loads example_trusted_loader"
    by blast
  from th [where url = "Some example_previewURL" and force = True]
  have 2: "previewFrame_loads (snd (loader_navigatorChannel_onmessage example_browser ''loader-1''
        example_trusted_loader
        (MessageEvent example_origin (REDIRECT_PAGE (Some example_previewURL) True))))
       = previewFrame_loads example_trusted_loader @ [example_previewURL]"
    by simp
  from th [where url = "Some (example_baseUrl @ ''/proj/new.html'')" and force = False] other
  have 3: "previewFrame_src (snd (loader_navigatorChannel_onmessage example_browser ''loader-1''
        example_trusted_loader
        (MessageEvent example_origin (REDIRECT_PAGE (Some (example_baseUrl @ ''/proj/new.html'')) False))))
       = example_baseUrl @ ''/proj/new.html''"
    by simp
  from ack same 1 2 3 show ?thesis by blast
qed

end
